theory Spec2Isabelle
  imports Complex_Main
begin

section \<open>Marketing-content generation for SLUUG/STLLUG meetings\<close>

text \<open>
  The development follows the later of the two revisions of the driver script found in
  the source tree (the one that reads \<open>meetingDate\<close> and \<open>meetingType\<close> from the
  input document, stores the generated posts under \<open>tweet\<close> and fans the title
  generation out like the image-design generation), together with the schema module
  that goes with it (\<open>meetingDate: z.string()\<close>, \<open>tweet\<close>, \<open>youtubeTitle\<close>).
  That this revision is the later one is visible in the source: it keeps the calls
  \<open>parseMeetingDateFromFileName\<close> and \<open>parseMeetingTypeFromFileName\<close> of the
  other revision as commented-out lines.
\<close>

subsection \<open>JavaScript strings\<close>

text \<open>
  A string is a list of 8-bit characters: the code units below 256. On that range
  the white space removed by \<open>trimStart\<close> and \<open>trimEnd\<close> is TAB, LF, VT, FF, CR,
  SPACE and NBSP, and \<open>toLowerCase\<close> moves A to Z and the capital letters of the
  Latin-1 block (0xC0 to 0xDE without the multiplication sign 0xD7) up by 32.
\<close>

definition isWhiteSpace :: "char \<Rightarrow> bool" where
  "isWhiteSpace c \<longleftrightarrow> of_char c \<in> {9, 10, 11, 12, 13, 32, 160 :: nat}"

definition toLowerCase_char :: "char \<Rightarrow> char" where
  "toLowerCase_char c =
     (let n = of_char c :: nat
      in if (65 \<le> n \<and> n \<le> 90) \<or> (192 \<le> n \<and> n \<le> 222 \<and> n \<noteq> 215)
         then char_of (n + 32) else c)"

definition toLowerCase :: "string \<Rightarrow> string" where
  "toLowerCase s = map toLowerCase_char s"

definition trimStart :: "string \<Rightarrow> string" where
  "trimStart s = dropWhile isWhiteSpace s"

definition trimEnd :: "string \<Rightarrow> string" where
  "trimEnd s = rev (dropWhile isWhiteSpace (rev s))"

text \<open>
  \<open>s.replace(a, b)\<close> with a string pattern replaces the first occurrence only; the
  source calls it with the one-character strings \<open>" "\<close> and \<open>"-"\<close>.
  \<open>s.replaceAll(a, b)\<close> replaces every occurrence.
\<close>

fun replace :: "char \<Rightarrow> char \<Rightarrow> string \<Rightarrow> string" where
  "replace a b [] = []"
| "replace a b (c # cs) = (if c = a then b # cs else c # replace a b cs)"

definition replaceAll :: "char \<Rightarrow> char \<Rightarrow> string \<Rightarrow> string" where
  "replaceAll a b s = map (\<lambda>c. if c = a then b else c) s"

text \<open>\<open>xs.join(sep)\<close>; the separator of \<open>xs.join()\<close> is a comma.\<close>

fun join :: "string \<Rightarrow> string list \<Rightarrow> string" where
  "join sep [] = []"
| "join sep [x] = x"
| "join sep (x # y # ys) = x @ sep @ join sep (y # ys)"

text \<open>
  A value of type \<open>string | undefined\<close> is a \<open>string option\<close>; as a condition it is
  true when it is present and not the empty string.
\<close>

definition truthy :: "string option \<Rightarrow> bool" where
  "truthy v = (case v of None \<Rightarrow> False | Some s \<Rightarrow> s \<noteq> [])"

subsection \<open>Errors\<close>

datatype ZodIssueCode = invalid_type | invalid_enum_value | too_small | too_big

datatype path_item = Key string | Index nat

type_synonym ZodIssue = "ZodIssueCode \<times> path_item list"

text \<open>
  \<open>Error m\<close> is \<open>new Error(m)\<close> thrown by the script, \<open>ZodError\<close> the exception of
  a failed \<open>schema.parse\<close>, \<open>APIError\<close> a request that the client library rejected,
  \<open>TypeError\<close> a property read on \<open>undefined\<close>, and \<open>ImageError i e\<close> the error that
  \<open>generateImage\<close> throws for the exception \<open>e\<close> of its callback number \<open>i\<close>.
\<close>

datatype error =
    Error string
  | ZodError "ZodIssue list"
  | APIError string
  | TypeError
  | ImageError nat error

subsection \<open>Records of the data model\<close>

record TagToolParams =
  tags :: "string list"

record TweetToolParams =
  tweets :: "string list"

record YouTubeTitleToolParams =
  titles :: "string list"

record Link =
  linkText :: "string option"
  url :: string

record Image =
  src :: string
  alt :: string

record Presentation =
  title :: string
  presenterNames :: "string list"
  abstract :: string
  references :: "Link list option"
  tags :: "string list option"
  tweet :: "string list option"

datatype MeetingType = SLUUG | STLLUG

record Meeting =
  meetingDate :: string
  meetingType :: MeetingType
  presentations :: "Presentation list"
  meetupUrl :: "string option"
  youtubeUrl :: "string option"
  youtubeTitle :: "string list option"
  image :: "Image list option"

subsection \<open>Tool functions and the link suffix\<close>

definition tagTool :: "TagToolParams \<Rightarrow> string list" where
  "tagTool args =
     map (\<lambda>tag. toLowerCase (replace CHR '' '' CHR ''-'' (trimEnd (trimStart tag))))
       (TagToolParams.tags args)"

definition tweetTool :: "TweetToolParams \<Rightarrow> string list" where
  "tweetTool args = tweets args"

definition youTubeTitleTool :: "YouTubeTitleToolParams \<Rightarrow> string list" where
  "youTubeTitleTool args = titles args"

definition addLinkToTweets :: "Presentation \<Rightarrow> string option \<Rightarrow> error + Presentation" where
  "addLinkToTweets presentation link =
     (case tweet presentation of
        None \<Rightarrow> Inl (Error ''Presentation does not contain any tweets'')
      | Some ts \<Rightarrow>
          if truthy link
          then Inr (presentation\<lparr>tweet := Some (map (\<lambda>t. trimEnd (t @ '' '' @ the link)) ts)\<rparr>)
          else Inr (presentation\<lparr>tweet := Some (map (\<lambda>t. trimEnd t) ts)\<rparr>))"

subsection \<open>JSON values\<close>

text \<open>
  The result of \<open>JSON.parse\<close>. An object is its list of properties, looked up with
  \<open>map_of\<close>; a property that is missing reads as \<open>undefined\<close>, here \<open>None\<close>.
\<close>

datatype json =
    JNull
  | JBool bool
  | JNum real
  | JStr string
  | JArr "json list"
  | JObj "(string \<times> json) list"

definition property :: "json \<Rightarrow> string \<Rightarrow> json option" where
  "property data k = (case data of JObj fs \<Rightarrow> map_of fs k | _ \<Rightarrow> None)"

subsection \<open>Schemas\<close>

text \<open>
  A schema maps the path of the value in the document and the value (\<open>None\<close> for
  \<open>undefined\<close>) to the parsed value or to the issues found. As the schema library
  does, an object or array schema reports the issues of all its parts, in order.
\<close>

type_synonym 'a ZodType = "path_item list \<Rightarrow> json option \<Rightarrow> ZodIssue list + 'a"

definition ap :: "ZodIssue list + ('a \<Rightarrow> 'b) \<Rightarrow> ZodIssue list + 'a \<Rightarrow> ZodIssue list + 'b" where
  "ap f x =
     (case f of
        Inr g \<Rightarrow> (case x of Inr a \<Rightarrow> Inr (g a) | Inl e \<Rightarrow> Inl e)
      | Inl e \<Rightarrow> (case x of Inr a \<Rightarrow> Inl e | Inl e' \<Rightarrow> Inl (e @ e')))"

definition z_string :: "string ZodType" where
  "z_string path v = (case v of Some (JStr s) \<Rightarrow> Inr s | _ \<Rightarrow> Inl [(invalid_type, path)])"

definition z_optional :: "'a ZodType \<Rightarrow> 'a option ZodType" where
  "z_optional t path v =
     (case v of
        None \<Rightarrow> Inr None
      | Some x \<Rightarrow> (case t path v of Inl e \<Rightarrow> Inl e | Inr a \<Rightarrow> Inr (Some a)))"

fun z_items :: "'a ZodType \<Rightarrow> path_item list \<Rightarrow> nat \<Rightarrow> json list \<Rightarrow> ZodIssue list + 'a list" where
  "z_items t path i [] = Inr []"
| "z_items t path i (x # xs) =
     ap (ap (Inr (#)) (t (path @ [Index i]) (Some x))) (z_items t path (Suc i) xs)"

definition z_array :: "'a ZodType \<Rightarrow> 'a list ZodType" where
  "z_array t path v =
     (case v of Some (JArr xs) \<Rightarrow> z_items t path 0 xs | _ \<Rightarrow> Inl [(invalid_type, path)])"

text \<open>
  The size checks of an array schema: \<open>.min(n)\<close>, \<open>.max(n)\<close>, \<open>.length(n)\<close>. A
  violated check adds its issue in front of the issues of the elements.
\<close>

definition z_size :: "(nat \<Rightarrow> ZodIssueCode option) \<Rightarrow> 'a list ZodType \<Rightarrow> 'a list ZodType" where
  "z_size check t path v =
     (case v of
        Some (JArr xs) \<Rightarrow>
          (case check (length xs) of
             None \<Rightarrow> t path v
           | Some c \<Rightarrow> Inl ((c, path) # (case t path v of Inl e \<Rightarrow> e | Inr a \<Rightarrow> [])))
      | _ \<Rightarrow> t path v)"

definition z_min :: "nat \<Rightarrow> 'a list ZodType \<Rightarrow> 'a list ZodType" where
  "z_min n = z_size (\<lambda>k. if k < n then Some too_small else None)"

definition z_max :: "nat \<Rightarrow> 'a list ZodType \<Rightarrow> 'a list ZodType" where
  "z_max n = z_size (\<lambda>k. if n < k then Some too_big else None)"

definition z_length :: "nat \<Rightarrow> 'a list ZodType \<Rightarrow> 'a list ZodType" where
  "z_length n = z_size (\<lambda>k. if n < k then Some too_big else if k < n then Some too_small else None)"

text \<open>The property \<open>k\<close> of an object, parsed under the object's path extended by \<open>k\<close>.\<close>

definition field :: "'a ZodType \<Rightarrow> path_item list \<Rightarrow> (string \<times> json) list \<Rightarrow> string \<Rightarrow> ZodIssue list + 'a" where
  "field t path fs k = t (path @ [Key k]) (map_of fs k)"

definition meetingTypeSchema :: "MeetingType ZodType" where
  "meetingTypeSchema path v =
     (case v of
        Some (JStr s) \<Rightarrow>
          if s = ''SLUUG'' then Inr SLUUG
          else if s = ''STLLUG'' then Inr STLLUG
          else Inl [(invalid_enum_value, path)]
      | _ \<Rightarrow> Inl [(invalid_type, path)])"

definition linkSchema :: "Link ZodType" where
  "linkSchema path v =
     (case v of
        Some (JObj fs) \<Rightarrow>
          ap (ap (Inr (\<lambda>a b. \<lparr>linkText = a, url = b\<rparr>))
            (field (z_optional z_string) path fs ''linkText''))
            (field z_string path fs ''url'')
      | _ \<Rightarrow> Inl [(invalid_type, path)])"

definition imageSchema :: "Image ZodType" where
  "imageSchema path v =
     (case v of
        Some (JObj fs) \<Rightarrow>
          ap (ap (Inr (\<lambda>a b. \<lparr>src = a, alt = b\<rparr>))
            (field z_string path fs ''src''))
            (field z_string path fs ''alt'')
      | _ \<Rightarrow> Inl [(invalid_type, path)])"

definition presentationSchema :: "Presentation ZodType" where
  "presentationSchema path v =
     (case v of
        Some (JObj fs) \<Rightarrow>
          ap (ap (ap (ap (ap (ap
            (Inr (\<lambda>a b c d e f. \<lparr>title = a, presenterNames = b, abstract = c,
                                  references = d, tags = e, tweet = f\<rparr>))
            (field z_string path fs ''title''))
            (field (z_array z_string) path fs ''presenterNames''))
            (field z_string path fs ''abstract''))
            (field (z_optional (z_array linkSchema)) path fs ''references''))
            (field (z_optional (z_array z_string)) path fs ''tags''))
            (field (z_optional (z_array z_string)) path fs ''tweet'')
      | _ \<Rightarrow> Inl [(invalid_type, path)])"

definition meetingSchema :: "Meeting ZodType" where
  "meetingSchema path v =
     (case v of
        Some (JObj fs) \<Rightarrow>
          ap (ap (ap (ap (ap (ap (ap
            (Inr (\<lambda>a b c d e f g. \<lparr>meetingDate = a, meetingType = b, presentations = c,
                                    meetupUrl = d, youtubeUrl = e, youtubeTitle = f, image = g\<rparr>))
            (field z_string path fs ''meetingDate''))
            (field meetingTypeSchema path fs ''meetingType''))
            (field (z_min 1 (z_array presentationSchema)) path fs ''presentations''))
            (field (z_optional z_string) path fs ''meetupUrl''))
            (field (z_optional z_string) path fs ''youtubeUrl''))
            (field (z_optional (z_array z_string)) path fs ''youtubeTitle''))
            (field (z_optional (z_array imageSchema)) path fs ''image'')
      | _ \<Rightarrow> Inl [(invalid_type, path)])"

definition tweetToolParamsSchema :: "TweetToolParams ZodType" where
  "tweetToolParamsSchema path v =
     (case v of
        Some (JObj fs) \<Rightarrow>
          ap (Inr (\<lambda>a. \<lparr>tweets = a\<rparr>)) (field (z_length 3 (z_array z_string)) path fs ''tweets'')
      | _ \<Rightarrow> Inl [(invalid_type, path)])"

definition tagToolParamsSchema :: "TagToolParams ZodType" where
  "tagToolParamsSchema path v =
     (case v of
        Some (JObj fs) \<Rightarrow>
          ap (Inr (\<lambda>a. \<lparr>TagToolParams.tags = a\<rparr>)) (field (z_max 3 (z_array z_string)) path fs ''tags'')
      | _ \<Rightarrow> Inl [(invalid_type, path)])"

definition youtubeTitleToolParamsSchema :: "YouTubeTitleToolParams ZodType" where
  "youtubeTitleToolParamsSchema path v =
     (case v of
        Some (JObj fs) \<Rightarrow>
          ap (Inr (\<lambda>a. \<lparr>titles = a\<rparr>)) (field (z_length 3 (z_array z_string)) path fs ''titles'')
      | _ \<Rightarrow> Inl [(invalid_type, path)])"

text \<open>\<open>schema.parse(data)\<close>: the parsed value, or a \<open>ZodError\<close> with all the issues.\<close>

definition parse :: "'a ZodType \<Rightarrow> json \<Rightarrow> error + 'a" where
  "parse schema data =
     (case schema [] (Some data) of Inl issues \<Rightarrow> Inl (ZodError issues) | Inr a \<Rightarrow> Inr a)"

text \<open>
  \<open>parseMeetingFile\<close>, on the JSON value read from the input file:
  \<open>meetingSchema.parse(JSON.parse(...))\<close>.
\<close>

definition parseMeetingFile :: "json \<Rightarrow> error + Meeting" where
  "parseMeetingFile data = parse meetingSchema data"

subsection \<open>Prompts\<close>

definition convertPresentationToPrompt :: "Presentation \<Rightarrow> bool \<Rightarrow> string option \<Rightarrow> string" where
  "convertPresentationToPrompt presentation includePresenters date =
     (if truthy date then ''This presentation will be given on: '' @ the date else [])
     @ ''.'' @ [CHR 0x0A]
     @ ''    The title of the presentation is: '' @ title presentation @ ''.'' @ [CHR 0x0A]
     @ ''    ''
     @ (if includePresenters
        then ''The presenter(s) are: '' @ join '','' (presenterNames presentation) @ ''.''
        else [])
     @ [CHR 0x0A]
     @ ''    This presentation abstract is as follows: '' @ abstract presentation @ [CHR 0x0A]
     @ ''    ''
     @ (case tags presentation of Some ts \<Rightarrow> ''Tags: '' @ join '','' ts | None \<Rightarrow> [])"

definition convertPresentationsToPrompt :: "Presentation list \<Rightarrow> bool \<Rightarrow> string option \<Rightarrow> string" where
  "convertPresentationsToPrompt ps includePresenters date =
     join [CHR 0x0A] (map (\<lambda>presentation. convertPresentationToPrompt presentation includePresenters date) ps)"

subsection \<open>The generative API\<close>

text \<open>
  The client of the generative API is the environment of the script. A run records the
  requests it issues, in order; the answer to a request may depend on how many requests
  came before it, so that the same prompt can be answered differently each time.
  A request names the operation called and carries the text of the user message (the
  system message and the sampling settings are constants of each call site):
  \<^item> \<open>RunTools tool text\<close>: a chat completion that must call the tool \<open>tool\<close>; the
    answer is the arguments of the tool call, \<open>None\<close> when the model made no call
    (a request that is put again after a rejected answer is recorded again);
  \<^item> \<open>Create text\<close>: a plain chat completion; the answer is the content of each choice;
  \<^item> \<open>Generate prompt\<close>: an image generation; the answer is the list \<open>data\<close> of
    pairs of the image's transient address and the revised prompt.
  Every operation can also fail with an error of the client library.
\<close>

datatype request = RunTools string string | Create string | Generate string

record OpenAI =
  runTools :: "nat \<Rightarrow> string \<Rightarrow> string \<Rightarrow> error + json option"
  create :: "nat \<Rightarrow> string \<Rightarrow> error + string option list"
  generate :: "nat \<Rightarrow> string \<Rightarrow> error + (string option \<times> string option) list"

text \<open>
  A computation of the script: from the requests issued so far to its outcome (an
  exception or a value) and the requests issued after it.
\<close>

type_synonym 'a io = "request list \<Rightarrow> (error + 'a) \<times> request list"

definition resolve :: "'a \<Rightarrow> 'a io" where
  "resolve a = (\<lambda>sent. (Inr a, sent))"

definition reject :: "error \<Rightarrow> 'a io" where
  "reject e = (\<lambda>sent. (Inl e, sent))"

definition await :: "'a io \<Rightarrow> ('a \<Rightarrow> 'b io) \<Rightarrow> 'b io" where
  "await m f = (\<lambda>sent. case m sent of (Inl e, sent') \<Rightarrow> (Inl e, sent') | (Inr a, sent') \<Rightarrow> f a sent')"

text \<open>
  \<open>Promise.all(xs.map(async ...))\<close>: every callback issues its request, in the order
  of the list; the result is the list of the values, or an exception when a callback
  failed. (Which exception, when several fail, depends on the timing of the answers;
  the model takes the first in the order of the list.)
\<close>

fun run_all :: "'a io list \<Rightarrow> request list \<Rightarrow> (error + 'a) list \<times> request list" where
  "run_all [] sent = ([], sent)"
| "run_all (m # ms) sent =
     (case m sent of (r, sent') \<Rightarrow> (case run_all ms sent' of (rs, sent'') \<Rightarrow> (r # rs, sent'')))"

fun settle :: "(error + 'a) list \<Rightarrow> error + 'a list" where
  "settle [] = Inr []"
| "settle (Inl e # rs) = Inl e"
| "settle (Inr a # rs) = (case settle rs of Inl e \<Rightarrow> Inl e | Inr as \<Rightarrow> Inr (a # as))"

definition Promise_all :: "'a io list \<Rightarrow> 'a list io" where
  "Promise_all ms = (\<lambda>sent. case run_all ms sent of (rs, sent') \<Rightarrow> (settle rs, sent'))"

text \<open>\<open>for (let i = 0; i < n; i++) acc = await body(acc)\<close>.\<close>

fun for_loop :: "nat \<Rightarrow> ('s \<Rightarrow> 's io) \<Rightarrow> 's \<Rightarrow> 's io" where
  "for_loop 0 body acc = resolve acc"
| "for_loop (Suc n) body acc = await (body acc) (for_loop n body)"

text \<open>
  \<open>zodFunction\<close> hands the client library a tool: \<open>parse\<close>, which is \<open>schema.parse\<close>
  on the arguments of the tool call (taken here as the JSON value that \<open>JSON.parse\<close>
  returns for them) and throws a \<open>ZodError\<close> with the issues found, and the tool's
  function, which receives what \<open>parse\<close> returned.
\<close>

definition zodFunction :: "('a \<Rightarrow> string list) \<Rightarrow> 'a ZodType \<Rightarrow> json \<Rightarrow> ZodIssue list + string list" where
  "zodFunction fn schema input =
     (case schema [] (Some input) of Inl issues \<Rightarrow> Inl issues | Inr args \<Rightarrow> Inr (fn args))"

text \<open>
  \<open>runTools(...).finalFunctionCallResult()\<close> of the client library, as the script uses
  it: with one tool, which the model is told to call. The library puts the request to
  the model at most \<open>DEFAULT_MAX_CHAT_COMPLETIONS\<close> times:
  \<^item> a request that fails ends the call with the error;
  \<^item> an answer without a tool call ends the call;
  \<^item> when \<open>parse\<close> accepts the arguments of the tool call, the tool's function runs,
    what it returns becomes the last tool message and the call ends;
  \<^item> when \<open>parse\<close> throws, the exception is caught, its message becomes the last tool
    message, and the request is put again.
  The call returns the last tool message, \<open>undefined\<close> (\<open>None\<close>) when there is none.

  The stages read the result with \<open>JSON.parse(result) as string[]\<close>, a cast that checks
  nothing. What the tool's function returned is read back as the strings it returned.
  The message of a \<open>ZodError\<close> is the JSON text of the array of its issues, one object
  for each issue; the stage gets these objects where it expects strings, and an object
  used as a string reads \<open>[object Object]\<close>. The model keeps the result as the list of
  strings that the script reads from it.
\<close>

definition DEFAULT_MAX_CHAT_COMPLETIONS :: nat where
  "DEFAULT_MAX_CHAT_COMPLETIONS = 10"

definition ZodError_message :: "ZodIssue list \<Rightarrow> string list" where
  "ZodError_message issues = map (\<lambda>issue. ''[object Object]'') issues"

fun runTools_loop ::
  "OpenAI \<Rightarrow> string \<Rightarrow> (json \<Rightarrow> ZodIssue list + string list) \<Rightarrow> string \<Rightarrow> nat \<Rightarrow>
   string list option \<Rightarrow> string list option io" where
  "runTools_loop openAi name tool text 0 lastMessage sent = (Inr lastMessage, sent)"
| "runTools_loop openAi name tool text (Suc k) lastMessage sent =
     (case runTools openAi (length sent) name text of
        Inl e \<Rightarrow> (Inl e, sent @ [RunTools name text])
      | Inr None \<Rightarrow> (Inr lastMessage, sent @ [RunTools name text])
      | Inr (Some input) \<Rightarrow>
          (case tool input of
             Inr r \<Rightarrow> (Inr (Some r), sent @ [RunTools name text])
           | Inl issues \<Rightarrow>
               runTools_loop openAi name tool text k (Some (ZodError_message issues))
                 (sent @ [RunTools name text])))"

definition finalFunctionCallResult ::
  "OpenAI \<Rightarrow> string \<Rightarrow> (json \<Rightarrow> ZodIssue list + string list) \<Rightarrow> string \<Rightarrow> string list option io" where
  "finalFunctionCallResult openAi name tool text =
     runTools_loop openAi name tool text DEFAULT_MAX_CHAT_COMPLETIONS None"

subsection \<open>Enrichment stages\<close>

definition generateTags :: "OpenAI \<Rightarrow> Presentation \<Rightarrow> Presentation io" where
  "generateTags openAi presentation =
     await (finalFunctionCallResult openAi ''tagTool'' (zodFunction tagTool tagToolParamsSchema)
             (convertPresentationToPrompt presentation False None))
       (\<lambda>result. case result of
          None \<Rightarrow> reject (Error ''OpenAI did not call the tool.'')
        | Some r \<Rightarrow> resolve (presentation\<lparr>tags := Some r\<rparr>))"

definition generateTweets :: "OpenAI \<Rightarrow> Presentation \<Rightarrow> string \<Rightarrow> Presentation io" where
  "generateTweets openAi presentation date =
     await (finalFunctionCallResult openAi ''tweetTool'' (zodFunction tweetTool tweetToolParamsSchema)
             (convertPresentationToPrompt presentation True (Some date)))
       (\<lambda>result. case result of
          None \<Rightarrow> reject (Error ''OpenAI did not call the tool.'')
        | Some r \<Rightarrow> resolve (presentation\<lparr>tweet := Some r\<rparr>))"

definition MeetingType_string :: "MeetingType \<Rightarrow> string" where
  "MeetingType_string t = (case t of SLUUG \<Rightarrow> ''SLUUG'' | STLLUG \<Rightarrow> ''STLLUG'')"

definition suffixTitleWithMeetingDateAndType :: "string list \<Rightarrow> string \<Rightarrow> MeetingType \<Rightarrow> string list" where
  "suffixTitleWithMeetingDateAndType generatedTitles date type =
     map (\<lambda>t. t @ '' | '' @ MeetingType_string type @ '' '' @ date) generatedTitles"

definition generateYouTubeTitleFromPrompt ::
  "OpenAI \<Rightarrow> string \<Rightarrow> string \<Rightarrow> MeetingType \<Rightarrow> string list io" where
  "generateYouTubeTitleFromPrompt openAi presentationPrompt date type =
     await (finalFunctionCallResult openAi ''youTubeTitleTool''
             (zodFunction youTubeTitleTool youtubeTitleToolParamsSchema) presentationPrompt)
       (\<lambda>result. case result of
          None \<Rightarrow> reject (Error ''OpenAI did not call the tool.'')
        | Some generatedTitles \<Rightarrow>
            resolve (suffixTitleWithMeetingDateAndType generatedTitles date type))"

definition generateImageDesignIdeaFromPrompt :: "OpenAI \<Rightarrow> string \<Rightarrow> string io" where
  "generateImageDesignIdeaFromPrompt openAi presentationPrompt =
     (\<lambda>sent. ((case create openAi (length sent) presentationPrompt of
                Inl e \<Rightarrow> Inl e
              | Inr [] \<Rightarrow> Inl TypeError
              | Inr (content # more_choices) \<Rightarrow>
                  if truthy content then Inr (the content)
                  else Inl (Error ''OpenAI did not call the tool.'')),
             sent @ [Create presentationPrompt]))"

definition getFileNamePrefix :: "string \<Rightarrow> MeetingType \<Rightarrow> string" where
  "getFileNamePrefix date type = date @ ''_'' @ toLowerCase (MeetingType_string type)"

text \<open>
  One callback of \<open>generateImage\<close>. The download of the image, its resizing and the
  write of the image file happen in a callback that the function does not wait for;
  the model covers the request, the checks of the answer and the returned record.
\<close>

definition fileName_punctuation :: "char set" where
  "fileName_punctuation =
     set ''.,/#!$%^&*;:{}=_~()'' \<union> {CHR 0x27, CHR 0x22, CHR 0x60}"

definition generateImage_one :: "OpenAI \<Rightarrow> string \<Rightarrow> nat \<Rightarrow> string \<Rightarrow> Image io" where
  "generateImage_one openAi fileNamePrefix i design =
     (\<lambda>sent. ((case generate openAi (length sent) design of
                Inl e \<Rightarrow> Inl (ImageError i e)
              | Inr [] \<Rightarrow> Inl (ImageError i (Error ''No image url returned from OpenAI.''))
              | Inr ((imageUrl, revisedPrompt) # more_data) \<Rightarrow>
                  if \<not> truthy imageUrl
                  then Inl (ImageError i (Error ''No image url returned from OpenAI.''))
                  else if \<not> truthy revisedPrompt
                  then Inl (ImageError i (Error ''No revised prompt returned from OpenAI.''))
                  else Inr \<lparr>src = ''./'' @ fileNamePrefix @ ''_''
                              @ toLowerCase (replaceAll CHR '' '' CHR ''-''
                                  (filter (\<lambda>c. c \<notin> fileName_punctuation)
                                     (trimEnd (take 60 (the revisedPrompt)))))
                              @ ''.png'',
                            alt = the revisedPrompt\<rparr>),
             sent @ [Generate design]))"

definition generateImage :: "OpenAI \<Rightarrow> string list \<Rightarrow> string \<Rightarrow> Image list io" where
  "generateImage openAi ideas fileNamePrefix =
     Promise_all (map (\<lambda>(i, design). generateImage_one openAi fileNamePrefix i design)
                    (enumerate 0 ideas))"

subsection \<open>The pipeline\<close>

text \<open>
  The top-level statements of the script, one definition for each of its variables.
  The record with the generated titles has one field more than \<open>Meeting\<close>: the script
  stores them under \<open>youTubeTitle\<close>, a key the schema does not have.
\<close>

record MeetingWithYouTubeTitles = Meeting +
  youTubeTitle :: "string list"

definition extractApiKeyFromEnv :: "string option \<Rightarrow> error + string" where
  "extractApiKeyFromEnv OPENAI_API_KEY =
     (if truthy OPENAI_API_KEY then Inr (the OPENAI_API_KEY)
      else Inl (Error ''Environment Variable: OPENAI_API_KEY not found.''))"

definition meetingWithTags :: "OpenAI \<Rightarrow> Meeting \<Rightarrow> Meeting io" where
  "meetingWithTags openAi meetingFromFile =
     await (Promise_all (map (generateTags openAi) (presentations meetingFromFile)))
       (\<lambda>ps. resolve (meetingFromFile\<lparr>presentations := ps\<rparr>))"

definition meetingWithTweets :: "OpenAI \<Rightarrow> Meeting \<Rightarrow> Meeting io" where
  "meetingWithTweets openAi m =
     await (Promise_all (map (\<lambda>presentation.
              await (generateTweets openAi presentation (meetingDate m))
                (\<lambda>presentationWithGeneratedTweets sent.
                   (addLinkToTweets presentationWithGeneratedTweets (meetupUrl m), sent)))
            (presentations m)))
       (\<lambda>ps. resolve (m\<lparr>presentations := ps\<rparr>))"

definition youTubeTitles :: "OpenAI \<Rightarrow> Meeting \<Rightarrow> string list io" where
  "youTubeTitles openAi m =
     (if length (presentations m) = 1
      then for_loop 3
             (\<lambda>acc. await (generateYouTubeTitleFromPrompt openAi
                             (convertPresentationToPrompt (hd (presentations m)) False None)
                             (meetingDate m) (meetingType m))
                       (\<lambda>ts. resolve (acc @ ts)))
             []
      else await (Promise_all (map (\<lambda>presentation.
                   generateYouTubeTitleFromPrompt openAi
                     (convertPresentationToPrompt presentation False None)
                     (meetingDate m) (meetingType m))
                 (presentations m)))
             (\<lambda>ts. await (generateYouTubeTitleFromPrompt openAi
                             (convertPresentationsToPrompt (presentations m) False None)
                             (meetingDate m) (meetingType m))
                      (\<lambda>combined. resolve (([] @ concat ts) @ combined))))"

definition meetingWithYouTubeTitles :: "OpenAI \<Rightarrow> Meeting \<Rightarrow> MeetingWithYouTubeTitles io" where
  "meetingWithYouTubeTitles openAi m =
     await (youTubeTitles openAi m)
       (\<lambda>ts. resolve (Meeting.extend m (MeetingWithYouTubeTitles.fields ts)))"

definition designIdeas :: "OpenAI \<Rightarrow> MeetingWithYouTubeTitles \<Rightarrow> string list io" where
  "designIdeas openAi m =
     (if length (presentations m) = 1
      then for_loop 3
             (\<lambda>acc. await (generateImageDesignIdeaFromPrompt openAi
                             (convertPresentationToPrompt (hd (presentations m)) False None))
                       (\<lambda>idea. resolve (acc @ [idea])))
             []
      else await (Promise_all (map (\<lambda>presentation.
                   generateImageDesignIdeaFromPrompt openAi
                     (convertPresentationToPrompt presentation False None))
                 (presentations m)))
             (\<lambda>ideas. await (generateImageDesignIdeaFromPrompt openAi
                               (convertPresentationsToPrompt (presentations m) False None))
                         (\<lambda>combined. resolve (([] @ ideas) @ [combined]))))"

definition meetingWithImages :: "OpenAI \<Rightarrow> MeetingWithYouTubeTitles \<Rightarrow> MeetingWithYouTubeTitles io" where
  "meetingWithImages openAi m =
     await (designIdeas openAi m)
       (\<lambda>ideas. await (generateImage openAi ideas (getFileNamePrefix (meetingDate m) (meetingType m)))
          (\<lambda>images. resolve (m\<lparr>image := Some images\<rparr>)))"

text \<open>
  The whole run, from the JSON value of the input file and the value of the
  environment variable: \<open>Inr\<close> is the record handed to \<open>writeMeetingToFile\<close>, the
  last statement of the script; \<open>Inl\<close> is the exception that ended the run before it.
\<close>

definition main :: "OpenAI \<Rightarrow> json \<Rightarrow> string option \<Rightarrow> MeetingWithYouTubeTitles io" where
  "main openAi data OPENAI_API_KEY =
     (case parseMeetingFile data of
        Inl e \<Rightarrow> reject e
      | Inr meetingFromFile \<Rightarrow>
          (case extractApiKeyFromEnv OPENAI_API_KEY of
             Inl e \<Rightarrow> reject e
           | Inr apiKey \<Rightarrow>
               await (meetingWithTags openAi meetingFromFile)
                 (\<lambda>m1. await (meetingWithTweets openAi m1)
                    (\<lambda>m2. await (meetingWithYouTubeTitles openAi m2)
                       (meetingWithImages openAi)))))"

subsection \<open>A sample run\<close>

text \<open>
  The input of the end-to-end scenario (one presentation), a presentation that already
  has a tag and a post, a meeting of two such presentations that already has an image,
  and an environment that answers every request: one tag, three posts, three titles,
  one design idea, one image.
\<close>

definition sample_input :: json where
  "sample_input = JObj
     [(''meetingDate'', JStr ''2024-02-14''), (''meetingType'', JStr ''SLUUG''),
      (''presentations'', JArr [JObj
         [(''title'', JStr ''Intro to Containers''),
          (''presenterNames'', JArr [JStr ''Jane Doe'']),
          (''abstract'', JStr ''A talk about containers.'')]]),
      (''meetupUrl'', JStr ''https://meetup.example/1'')]"

definition sample_openAi :: OpenAI where
  "sample_openAi =
     \<lparr>runTools = (\<lambda>n name text. Inr (Some
         (if name = ''tagTool''
          then JObj [(''tags'', JArr [JStr '' Linux Containers ''])]
          else if name = ''tweetTool''
          then JObj [(''tweets'', JArr [JStr ''Join us!'', JStr ''Containers ahead'', JStr ''See you there ''])]
          else JObj [(''titles'', JArr [JStr ''Containers 101'', JStr ''Why Containers'', JStr ''Hello Containers''])]))),
      create = (\<lambda>n text. Inr [Some ''A penguin among shipping containers'']),
      generate = (\<lambda>n prompt. Inr [(Some ''https://images.example/1'', Some ''A penguin, among containers.'')])\<rparr>"

definition sample_presentation :: Presentation where
  "sample_presentation =
     \<lparr>title = ''Base'', presenterNames = [''A B''], abstract = ''On shells.'',
      references = None, tags = Some [''podman''], tweet = Some [''An old post'']\<rparr>"

definition sample_meeting :: Meeting where
  "sample_meeting =
     \<lparr>meetingDate = ''2024-03-13'', meetingType = SLUUG,
      presentations = [sample_presentation, sample_presentation],
      meetupUrl = Some ''https://meetup.example/2'', youtubeUrl = None,
      youtubeTitle = None, image = Some [\<lparr>src = ''./old.png'', alt = ''An old image''\<rparr>]\<rparr>"

text \<open>
  An environment whose answers for the posts and for the titles never have the three
  entries that the tools require, and one whose first answer for the posts has two posts
  and whose later answers are as in \<open>sample_openAi\<close> (the request for the posts of the
  sample input is the second request of the run).
\<close>

definition sample_openAi_short :: OpenAI where
  "sample_openAi_short =
     \<lparr>runTools = (\<lambda>n name text. Inr (Some
         (if name = ''tagTool''
          then JObj [(''tags'', JArr [JStr '' Linux Containers ''])]
          else if name = ''tweetTool''
          then JObj [(''tweets'', JArr [JStr ''Join us!'', JStr ''Containers ahead''])]
          else JObj [(''titles'', JArr [JStr ''Containers 101'', JStr ''Why Containers''])]))),
      create = (\<lambda>n text. Inr [Some ''A penguin among shipping containers'']),
      generate = (\<lambda>n prompt. Inr [(Some ''https://images.example/1'', Some ''A penguin, among containers.'')])\<rparr>"

definition sample_openAi_retry :: OpenAI where
  "sample_openAi_retry =
     sample_openAi\<lparr>runTools := (\<lambda>n name text.
        if name = ''tweetTool'' \<and> n = 1
        then Inr (Some (JObj [(''tweets'', JArr [JStr ''Join us!'', JStr ''Containers ahead''])]))
        else runTools sample_openAi n name text)\<rparr>"

section \<open>Properties\<close>

subsection \<open>Strings\<close>

lemma trimEnd_space: "trimEnd (t @ '' '') = trimEnd t"
  by (simp add: trimEnd_def isWhiteSpace_def)

lemma trimEnd_idem: "trimEnd (trimEnd t) = trimEnd t"
  by (simp add: trimEnd_def)

lemma trimEnd_last: "trimEnd t = [] \<or> \<not> isWhiteSpace (last (trimEnd t))"
proof (cases "dropWhile isWhiteSpace (rev t)")
  case Nil
  then show ?thesis by (simp add: trimEnd_def)
next
  case (Cons c cs)
  then have "\<not> isWhiteSpace (hd (dropWhile isWhiteSpace (rev t)))"
    by (metis hd_dropWhile list.distinct(1))
  with Cons show ?thesis by (simp add: trimEnd_def)
qed

subsection \<open>Tags\<close>

text \<open>
  C2. The tag transform is not idempotent: \<open>replace\<close> turns only the first space of a
  tag into a hyphen, so on the tag \<open>a b c\<close> one application gives \<open>a-b c\<close> and a second
  one gives \<open>a-b-c\<close>.
\<close>

theorem tagTool_twice_differs:
  "tagTool \<lparr>TagToolParams.tags = [''a b c'']\<rparr> = [''a-b c''] \<and>
   tagTool \<lparr>TagToolParams.tags = tagTool \<lparr>TagToolParams.tags = [''a b c'']\<rparr>\<rparr> = [''a-b-c'']"
  by code_simp

subsection \<open>Link suffix\<close>

text \<open>
  C3. For a presentation that has posts, and any link \<open>l\<close> (absent and empty both
  read as the empty string), \<open>addLinkToTweets\<close> returns every post \<open>p\<close> as
  \<open>p + " " + l\<close> with the trailing white space trimmed. When \<open>l\<close> is empty that is
  \<open>p\<close> trimmed: no result ends in white space, and applying the operation again
  returns the same presentation.
\<close>

theorem addLinkToTweets_suffix:
  assumes "tweet p = Some ts"
  shows "addLinkToTweets p l =
           Inr (p\<lparr>tweet := Some (map (\<lambda>t. trimEnd (t @ '' '' @ (case l of None \<Rightarrow> [] | Some u \<Rightarrow> u))) ts)\<rparr>)
         \<and> (\<not> truthy l \<longrightarrow>
              addLinkToTweets p l = Inr (p\<lparr>tweet := Some (map trimEnd ts)\<rparr>)
              \<and> (\<forall>t \<in> set (map trimEnd ts). t = [] \<or> \<not> isWhiteSpace (last t))
              \<and> addLinkToTweets (p\<lparr>tweet := Some (map trimEnd ts)\<rparr>) l
                  = Inr (p\<lparr>tweet := Some (map trimEnd ts)\<rparr>))"
proof -
  have sp: "\<And>t. trimEnd (t @ '' '' @ []) = trimEnd t"
    using trimEnd_space by simp
  have a: "addLinkToTweets p l =
      Inr (p\<lparr>tweet := Some (map (\<lambda>t. trimEnd (t @ '' '' @ (case l of None \<Rightarrow> [] | Some u \<Rightarrow> u))) ts)\<rparr>)"
  proof (cases l)
    case None
    with assms show ?thesis
      by (simp add: addLinkToTweets_def truthy_def trimEnd_space)
  next
    case (Some u)
    with assms show ?thesis
      by (cases "u = []") (simp_all add: addLinkToTweets_def truthy_def trimEnd_space)
  qed
  have b: "addLinkToTweets p l = Inr (p\<lparr>tweet := Some (map trimEnd ts)\<rparr>)" if "\<not> truthy l"
    using that assms by (simp add: addLinkToTweets_def)
  have c: "\<forall>t \<in> set (map trimEnd ts). t = [] \<or> \<not> isWhiteSpace (last t)"
    using trimEnd_last by auto
  have d: "addLinkToTweets (p\<lparr>tweet := Some (map trimEnd ts)\<rparr>) l
             = Inr (p\<lparr>tweet := Some (map trimEnd ts)\<rparr>)" if "\<not> truthy l"
    using that by (simp add: addLinkToTweets_def trimEnd_idem)
  from a b c d show ?thesis by blast
qed

theorem addLinkToTweets_suffix_witness:
  "addLinkToTweets \<lparr>title = ''T'', presenterNames = [''Jane Doe''], abstract = ''A'',
       references = None, tags = None, tweet = Some [''Join us! '', ''See you'']\<rparr> (Some ''https://m.example/1'')
     = Inr \<lparr>title = ''T'', presenterNames = [''Jane Doe''], abstract = ''A'',
       references = None, tags = None,
       tweet = Some [''Join us!  https://m.example/1'', ''See you https://m.example/1'']\<rparr>
   \<and> addLinkToTweets \<lparr>title = ''T'', presenterNames = [''Jane Doe''], abstract = ''A'',
       references = None, tags = None, tweet = Some [''Join us! '', ''See you'']\<rparr> None
     = Inr \<lparr>title = ''T'', presenterNames = [''Jane Doe''], abstract = ''A'',
       references = None, tags = None, tweet = Some [''Join us!'', ''See you'']\<rparr>"
proof -
  let ?p = "\<lparr>title = ''T'', presenterNames = [''Jane Doe''], abstract = ''A'',
       references = None, tags = None, tweet = Some [''Join us! '', ''See you'']\<rparr>"
  have h: "tweet ?p = Some [''Join us! '', ''See you'']" by simp
  have t1: "trimEnd ''Join us!  https://m.example/1'' = ''Join us!  https://m.example/1''"
    by code_simp
  have t2: "trimEnd ''See you https://m.example/1'' = ''See you https://m.example/1''"
    by code_simp
  have t3: "trimEnd ''Join us!  '' = ''Join us!''" by code_simp
  have t4: "trimEnd ''See you '' = ''See you''" by code_simp
  show ?thesis
    using addLinkToTweets_suffix [OF h, of "Some ''https://m.example/1''"]
      addLinkToTweets_suffix [OF h, of None] t1 t2 t3 t4
    by simp
qed

text \<open>
  C10. A presentation without generated posts makes \<open>addLinkToTweets\<close> fail with the
  error \<open>Presentation does not contain any tweets\<close>; it is not returned unchanged.
\<close>

theorem addLinkToTweets_without_tweets:
  "tweet p = None \<Longrightarrow>
     addLinkToTweets p l = Inl (Error ''Presentation does not contain any tweets'')"
  by (simp add: addLinkToTweets_def)

theorem addLinkToTweets_without_tweets_witness:
  "tweet \<lparr>title = ''T'', presenterNames = [], abstract = ''A'', references = None,
      tags = Some [''linux''], tweet = None\<rparr> = None
   \<and> addLinkToTweets \<lparr>title = ''T'', presenterNames = [], abstract = ''A'', references = None,
      tags = Some [''linux''], tweet = None\<rparr> (Some ''https://m.example/1'')
     = Inl (Error ''Presentation does not contain any tweets'')"
  using addLinkToTweets_without_tweets
    [of "\<lparr>title = ''T'', presenterNames = [], abstract = ''A'', references = None,
      tags = Some [''linux''], tweet = None\<rparr>" "Some ''https://m.example/1''"]
  by simp

subsection \<open>Schemas\<close>

lemma ap_Inr_iff: "ap f x = Inr y \<longleftrightarrow> (\<exists>g a. f = Inr g \<and> x = Inr a \<and> y = g a)"
  by (auto simp: ap_def split: sum.splits)

lemma isl_ap: "isl (ap f x) \<longleftrightarrow> isl f \<or> isl x"
  by (auto simp: ap_def split: sum.splits)

lemma ap_Inr_Inr: "ap (Inr g) (Inr a) = Inr (g a)"
  by (simp add: ap_def)

lemma parse_Inr_iff: "parse schema data = Inr a \<longleftrightarrow> schema [] (Some data) = Inr a"
  by (simp add: parse_def split: sum.splits)

lemma isl_parse: "isl (parse schema data) \<longleftrightarrow> isl (schema [] (Some data))"
  by (simp add: parse_def split: sum.splits)

lemma z_items_length: "z_items t path i xs = Inr ys \<Longrightarrow> length ys = length xs"
  by (induction xs arbitrary: i ys) (auto simp: ap_Inr_iff)

lemma z_items_strings: "z_items z_string path i (map JStr ss) = Inr ss"
  by (induction ss arbitrary: i) (simp_all add: z_string_def ap_Inr_Inr)

lemma z_array_strings: "z_array z_string path (Some (JArr (map JStr ss))) = Inr ss"
  by (simp add: z_array_def z_items_strings)

lemma z_items_append:
  "z_items t path i (xs @ ys) =
     ap (ap (Inr (@)) (z_items t path i xs)) (z_items t path (i + length xs) ys)"
proof (induction xs arbitrary: i)
  case Nil
  show ?case by (cases "z_items t path i ys") (simp_all add: ap_def)
next
  case (Cons x xs)
  show ?case
    by (cases "t (path @ [Index i]) (Some x)"; cases "z_items t path (Suc i) xs";
        cases "z_items t path (Suc (i + length xs)) ys")
       (simp_all add: Cons ap_def)
qed

lemma z_size_Inr_iff:
  "z_size check t path v = Inr a \<longleftrightarrow>
     t path v = Inr a \<and> (\<forall>xs. v = Some (JArr xs) \<longrightarrow> check (length xs) = None)"
  by (auto simp: z_size_def split: option.splits json.splits)

lemma z_array_Inr_iff:
  "z_array t path v = Inr a \<longleftrightarrow> (\<exists>xs. v = Some (JArr xs) \<and> z_items t path 0 xs = Inr a)"
  by (auto simp: z_array_def split: option.splits json.splits)

lemma presentationSchema_override:
  assumes "presentationSchema path (Some (JObj fs)) = Inr p"
  shows "presentationSchema path
           (Some (JObj ((''tags'', JArr (map JStr ts)) # (''tweet'', JArr (map JStr ws)) # fs)))
         = Inr (p\<lparr>tags := Some ts, tweet := Some ws\<rparr>)"
  using assms
  by (auto simp: presentationSchema_def field_def ap_Inr_iff z_optional_def z_array_strings)

lemma z_items_replace:
  assumes "z_items t path i (pre @ x # post) = Inr c"
      and "t (path @ [Index (i + length pre)]) (Some y) = Inr b"
  shows "z_items t path i (pre @ y # post) = Inr (c[length pre := b])"
proof -
  from assms(1) obtain c1 a c3 where
    c1: "z_items t path i pre = Inr c1" and
    c3: "z_items t path (Suc (i + length pre)) post = Inr c3" and
    c: "c = c1 @ a # c3"
    by (auto simp: z_items_append ap_Inr_iff)
  have "length c1 = length pre" using c1 by (rule z_items_length)
  then have "c[length pre := b] = c1 @ b # c3"
    using c list_update_length [of c1 a c3 b] by simp
  then show ?thesis
    using c1 c3 assms(2) by (simp add: z_items_append ap_Inr_Inr)
qed

lemma z_items_nth:
  assumes "z_items t path i xs = Inr c" and "k < length xs"
  shows "t (path @ [Index (i + k)]) (Some (xs ! k)) = Inr (c ! k)"
  using assms
proof (induction xs arbitrary: i c k)
  case Nil
  then show ?case by simp
next
  case (Cons x xs)
  from Cons.prems(1) obtain a c' where
    a: "t (path @ [Index i]) (Some x) = Inr a" and
    c': "z_items t path (Suc i) xs = Inr c'" and c: "c = a # c'"
    by (auto simp: ap_Inr_iff)
  show ?case
  proof (cases k)
    case 0
    with a c show ?thesis by simp
  next
    case (Suc j)
    with Cons.prems(2) have "j < length xs" by simp
    from Cons.IH [OF c' this] show ?thesis using Suc c by simp
  qed
qed

text \<open>
  C5 (as amended). The validation of the input does not bound the number of tags or of
  posts of a presentation: in a document that is accepted, any presentation can be given
  arrays of strings of any length for \<open>tags\<close> and \<open>tweet\<close>, and the document is
  still accepted, with those arrays in the parsed record. The bounds are those of the
  schemas of the tool parameters: \<open>tagToolParamsSchema\<close> rejects an array of strings
  exactly when it has more than 3 entries, \<open>tweetToolParamsSchema\<close> exactly when it does
  not have 3.
\<close>

theorem presentation_arrays_not_bounded:
  "(parseMeetingFile (JObj ((''presentations'', JArr (pre @ JObj fs # post)) # mfs)) = Inr m \<longrightarrow>
    parseMeetingFile (JObj ((''presentations'',
        JArr (pre @ JObj ((''tags'', JArr (map JStr ts)) # (''tweet'', JArr (map JStr ws)) # fs) # post)) # mfs))
      = Inr (m\<lparr>presentations :=
               (presentations m)[length pre := (presentations m ! length pre)\<lparr>tags := Some ts, tweet := Some ws\<rparr>]\<rparr>))
   \<and> (isl (parse tagToolParamsSchema (JObj [(''tags'', JArr (map JStr ts))])) \<longleftrightarrow> 3 < length ts)
   \<and> (isl (parse tweetToolParamsSchema (JObj [(''tweets'', JArr (map JStr ws))])) \<longleftrightarrow> length ws \<noteq> 3)"
proof -
  let ?path = "[Key ''presentations'']"
  let ?fs' = "(''tags'', JArr (map JStr ts)) # (''tweet'', JArr (map JStr ws)) # fs"
  have a: "parseMeetingFile (JObj ((''presentations'', JArr (pre @ JObj ?fs' # post)) # mfs))
      = Inr (m\<lparr>presentations :=
               (presentations m)[length pre := (presentations m ! length pre)\<lparr>tags := Some ts, tweet := Some ws\<rparr>]\<rparr>)"
    if h: "parseMeetingFile (JObj ((''presentations'', JArr (pre @ JObj fs # post)) # mfs)) = Inr m"
  proof -
    from h obtain a b c d e f g where
      m: "m = \<lparr>meetingDate = a, meetingType = b, presentations = c,
               meetupUrl = d, youtubeUrl = e, youtubeTitle = f, image = g\<rparr>" and
      fa: "field z_string [] mfs ''meetingDate'' = Inr a" and
      fb: "field meetingTypeSchema [] mfs ''meetingType'' = Inr b" and
      fc: "z_items presentationSchema ?path 0 (pre @ JObj fs # post) = Inr c" and
      fd: "field (z_optional z_string) [] mfs ''meetupUrl'' = Inr d" and
      fe: "field (z_optional z_string) [] mfs ''youtubeUrl'' = Inr e" and
      ff: "field (z_optional (z_array z_string)) [] mfs ''youtubeTitle'' = Inr f" and
      fg: "field (z_optional (z_array imageSchema)) [] mfs ''image'' = Inr g"
      by (auto simp: parseMeetingFile_def parse_Inr_iff meetingSchema_def ap_Inr_iff field_def
            z_min_def z_size_Inr_iff z_array_Inr_iff)
    have "presentationSchema (?path @ [Index (0 + length pre)]) (Some ((pre @ JObj fs # post) ! length pre))
            = Inr (c ! length pre)"
      by (rule z_items_nth [OF fc]) simp
    then have "presentationSchema (?path @ [Index (0 + length pre)]) (Some (JObj ?fs'))
            = Inr ((c ! length pre)\<lparr>tags := Some ts, tweet := Some ws\<rparr>)"
      by (simp add: presentationSchema_override)
    from z_items_replace [OF fc this]
    have fc': "z_items presentationSchema ?path 0 (pre @ JObj ?fs' # post)
            = Inr (c[length pre := (c ! length pre)\<lparr>tags := Some ts, tweet := Some ws\<rparr>])" .
    have fc'': "z_min (Suc 0) (z_array presentationSchema) ?path (Some (JArr (pre @ JObj ?fs' # post)))
            = Inr (c[length pre := (c ! length pre)\<lparr>tags := Some ts, tweet := Some ws\<rparr>])"
      using fc' by (simp add: z_min_def z_size_Inr_iff z_array_Inr_iff)
    show ?thesis
      using fa fb fd fe ff fg
      by (simp add: m parseMeetingFile_def parse_Inr_iff meetingSchema_def field_def fc'' ap_Inr_Inr)
  qed
  have b: "isl (parse tagToolParamsSchema (JObj [(''tags'', JArr (map JStr ts))])) \<longleftrightarrow> 3 < length ts"
    by (simp add: isl_parse tagToolParamsSchema_def isl_ap field_def z_max_def z_size_def
          z_array_strings)
  have c: "isl (parse tweetToolParamsSchema (JObj [(''tweets'', JArr (map JStr ws))])) \<longleftrightarrow> length ws \<noteq> 3"
    by (auto simp: isl_parse tweetToolParamsSchema_def isl_ap field_def z_length_def z_size_def
          z_array_strings)
  from a b c show ?thesis by blast
qed


lemmas schema_defs =
  parseMeetingFile_def parse_def meetingSchema_def presentationSchema_def linkSchema_def
  imageSchema_def meetingTypeSchema_def field_def z_string_def z_optional_def z_array_def
  z_min_def z_max_def z_length_def z_size_def ap_def property_def

text \<open>
  A meeting whose presentation carries four tags and two posts passes the validation of
  the input.
\<close>

theorem meeting_with_four_tags_accepted:
  "parseMeetingFile (JObj
     [(''meetingDate'', JStr ''2024-02-14''), (''meetingType'', JStr ''SLUUG''),
      (''presentations'', JArr [JObj
         [(''title'', JStr ''Intro to Containers''),
          (''presenterNames'', JArr [JStr ''Jane Doe'']),
          (''abstract'', JStr ''A talk about containers.''),
          (''tags'', JArr [JStr ''linux'', JStr ''docker'', JStr ''podman'', JStr ''oci'']),
          (''tweet'', JArr [JStr ''one'', JStr ''two''])]])])
   = Inr \<lparr>meetingDate = ''2024-02-14'', meetingType = SLUUG,
       presentations = [\<lparr>title = ''Intro to Containers'', presenterNames = [''Jane Doe''],
          abstract = ''A talk about containers.'', references = None,
          tags = Some [''linux'', ''docker'', ''podman'', ''oci''], tweet = Some [''one'', ''two'']\<rparr>],
       meetupUrl = None, youtubeUrl = None, youtubeTitle = None, image = None\<rparr>"
  by (simp add: schema_defs)

theorem presentation_arrays_not_bounded_witness:
  "parseMeetingFile (JObj
     [(''presentations'', JArr [JObj
         [(''title'', JStr ''Intro to Containers''),
          (''presenterNames'', JArr [JStr ''Jane Doe'']),
          (''abstract'', JStr ''A talk about containers.'')]]),
      (''meetingDate'', JStr ''2024-02-14''), (''meetingType'', JStr ''SLUUG'')])
   = Inr \<lparr>meetingDate = ''2024-02-14'', meetingType = SLUUG,
       presentations = [\<lparr>title = ''Intro to Containers'', presenterNames = [''Jane Doe''],
          abstract = ''A talk about containers.'', references = None,
          tags = None, tweet = None\<rparr>],
       meetupUrl = None, youtubeUrl = None, youtubeTitle = None, image = None\<rparr>
   \<and> parseMeetingFile (JObj
     [(''presentations'', JArr [JObj
         [(''tags'', JArr [JStr ''linux'', JStr ''docker'', JStr ''podman'', JStr ''oci'']),
          (''tweet'', JArr [JStr ''one'', JStr ''two'']),
          (''title'', JStr ''Intro to Containers''),
          (''presenterNames'', JArr [JStr ''Jane Doe'']),
          (''abstract'', JStr ''A talk about containers.'')]]),
      (''meetingDate'', JStr ''2024-02-14''), (''meetingType'', JStr ''SLUUG'')])
   = Inr \<lparr>meetingDate = ''2024-02-14'', meetingType = SLUUG,
       presentations = [\<lparr>title = ''Intro to Containers'', presenterNames = [''Jane Doe''],
          abstract = ''A talk about containers.'', references = None,
          tags = Some [''linux'', ''docker'', ''podman'', ''oci''], tweet = Some [''one'', ''two'']\<rparr>],
       meetupUrl = None, youtubeUrl = None, youtubeTitle = None, image = None\<rparr>
   \<and> isl (parse tagToolParamsSchema (JObj [(''tags'', JArr [JStr ''linux'', JStr ''docker'', JStr ''podman'', JStr ''oci''])]))
   \<and> isl (parse tweetToolParamsSchema (JObj [(''tweets'', JArr [JStr ''one'', JStr ''two''])]))"
proof -
  let ?fs = "[(''title'', JStr ''Intro to Containers''),
          (''presenterNames'', JArr [JStr ''Jane Doe'']),
          (''abstract'', JStr ''A talk about containers.'')]"
  let ?mfs = "[(''meetingDate'', JStr ''2024-02-14''), (''meetingType'', JStr ''SLUUG'')]"
  let ?m = "\<lparr>meetingDate = ''2024-02-14'', meetingType = SLUUG,
       presentations = [\<lparr>title = ''Intro to Containers'', presenterNames = [''Jane Doe''],
          abstract = ''A talk about containers.'', references = None,
          tags = None, tweet = None\<rparr>],
       meetupUrl = None, youtubeUrl = None, youtubeTitle = None, image = None\<rparr>"
  have h: "parseMeetingFile (JObj ((''presentations'', JArr ([] @ JObj ?fs # [])) # ?mfs)) = Inr ?m"
    by (simp add: schema_defs)
  show ?thesis
    using h presentation_arrays_not_bounded [of "[]" ?fs "[]" ?mfs ?m "[''linux'', ''docker'', ''podman'', ''oci'']" "[''one'', ''two'']"]
    by simp
qed

text \<open>A meeting whose date is the text \<open>next Tuesday\<close> passes the validation.\<close>

theorem meeting_with_free_text_date_accepted:
  "parseMeetingFile (JObj
     [(''meetingDate'', JStr ''next Tuesday''), (''meetingType'', JStr ''SLUUG''),
      (''presentations'', JArr [JObj
         [(''title'', JStr ''Intro to Containers''),
          (''presenterNames'', JArr [JStr ''Jane Doe'']),
          (''abstract'', JStr ''A talk about containers.'')]])])
   = Inr \<lparr>meetingDate = ''next Tuesday'', meetingType = SLUUG,
       presentations = [\<lparr>title = ''Intro to Containers'', presenterNames = [''Jane Doe''],
          abstract = ''A talk about containers.'', references = None,
          tags = None, tweet = None\<rparr>],
       meetupUrl = None, youtubeUrl = None, youtubeTitle = None, image = None\<rparr>"
  by (simp add: schema_defs)

text \<open>
  C6 (as amended). The validation accepts every string as the meeting date, whatever its
  format, and keeps it as the string it is: replacing the date string of an accepted
  document by any other string gives an accepted document, which differs in the date
  only. The validation fails when the date is missing or is not a string.
\<close>

theorem meetingDate_any_string:
  "(parseMeetingFile (JObj ((''meetingDate'', JStr s) # mfs)) = Inr m \<longrightarrow>
      meetingDate m = s \<and>
      parseMeetingFile (JObj ((''meetingDate'', JStr s') # mfs)) = Inr (m\<lparr>meetingDate := s'\<rparr>))
   \<and> ((\<forall>s. property data ''meetingDate'' \<noteq> Some (JStr s)) \<longrightarrow> isl (parseMeetingFile data))"
proof -
  have a: "meetingDate m = s \<and>
      parseMeetingFile (JObj ((''meetingDate'', JStr s') # mfs)) = Inr (m\<lparr>meetingDate := s'\<rparr>)"
    if "parseMeetingFile (JObj ((''meetingDate'', JStr s) # mfs)) = Inr m"
    using that
    by (auto simp: parseMeetingFile_def parse_Inr_iff meetingSchema_def ap_Inr_iff field_def
          z_string_def)
  have b: "isl (parseMeetingFile data)" if "\<forall>s. property data ''meetingDate'' \<noteq> Some (JStr s)"
  proof (cases data)
    case (JObj fs)
    with that have "isl (z_string [Key ''meetingDate''] (map_of fs ''meetingDate''))"
      by (auto simp: property_def z_string_def split: option.splits json.splits)
    with JObj show ?thesis
      by (simp add: parseMeetingFile_def isl_parse meetingSchema_def isl_ap field_def)
  qed (simp_all add: parseMeetingFile_def isl_parse meetingSchema_def)
  from a b show ?thesis by blast
qed

text \<open>
  C7. A document without \<open>presentations\<close>, or with an empty array of presentations,
  fails the validation; so every validated meeting has at least one presentation.
\<close>

theorem meetingSchema_presentations_nonempty:
  "(property data ''presentations'' = None \<or> property data ''presentations'' = Some (JArr [])
      \<longrightarrow> isl (parseMeetingFile data))
   \<and> (parseMeetingFile data = Inr m \<longrightarrow> presentations m \<noteq> [])"
proof -
  have a: "isl (parseMeetingFile data)"
    if "property data ''presentations'' = None \<or> property data ''presentations'' = Some (JArr [])"
  proof (cases data)
    case (JObj fs)
    with that have "isl (z_min 1 (z_array presentationSchema) [Key ''presentations'']
                       (map_of fs ''presentations''))"
      by (auto simp: property_def z_min_def z_size_def z_array_def)
    with JObj show ?thesis
      by (simp add: parseMeetingFile_def isl_parse meetingSchema_def isl_ap field_def)
  qed (simp_all add: parseMeetingFile_def isl_parse meetingSchema_def)
  have b: "presentations m \<noteq> []" if "parseMeetingFile data = Inr m"
  proof -
    from that obtain fs where d: "data = JObj fs"
      by (cases data) (simp_all add: parseMeetingFile_def parse_Inr_iff meetingSchema_def)
    from that d obtain xs where
      "map_of fs ''presentations'' = Some (JArr xs)" and
      "z_items presentationSchema [Key ''presentations''] 0 xs = Inr (presentations m)" and
      "\<not> length xs < 1"
      by (auto simp: parseMeetingFile_def parse_Inr_iff meetingSchema_def ap_Inr_iff field_def
            z_min_def z_size_Inr_iff z_array_Inr_iff split: if_splits)
    then show ?thesis
      using z_items_length by fastforce
  qed
  from a b show ?thesis by blast
qed

theorem meetingDate_any_string_witness:
  "parseMeetingFile (JObj
     [(''meetingDate'', JStr ''2024-02-14''), (''meetingType'', JStr ''STLLUG''),
      (''presentations'', JArr [JObj
         [(''title'', JStr ''T''), (''presenterNames'', JArr []), (''abstract'', JStr ''A'')]])])
   = Inr \<lparr>meetingDate = ''2024-02-14'', meetingType = STLLUG,
       presentations = [\<lparr>title = ''T'', presenterNames = [], abstract = ''A'',
          references = None, tags = None, tweet = None\<rparr>],
       meetupUrl = None, youtubeUrl = None, youtubeTitle = None, image = None\<rparr>
   \<and> parseMeetingFile (JObj
     [(''meetingDate'', JStr ''14 February''), (''meetingType'', JStr ''STLLUG''),
      (''presentations'', JArr [JObj
         [(''title'', JStr ''T''), (''presenterNames'', JArr []), (''abstract'', JStr ''A'')]])])
   = Inr \<lparr>meetingDate = ''14 February'', meetingType = STLLUG,
       presentations = [\<lparr>title = ''T'', presenterNames = [], abstract = ''A'',
          references = None, tags = None, tweet = None\<rparr>],
       meetupUrl = None, youtubeUrl = None, youtubeTitle = None, image = None\<rparr>
   \<and> isl (parseMeetingFile (JObj
     [(''meetingDate'', JNum 20240214), (''meetingType'', JStr ''STLLUG''),
      (''presentations'', JArr [JObj
         [(''title'', JStr ''T''), (''presenterNames'', JArr []), (''abstract'', JStr ''A'')]])]))"
proof -
  let ?mfs = "[(''meetingType'', JStr ''STLLUG''),
      (''presentations'', JArr [JObj
         [(''title'', JStr ''T''), (''presenterNames'', JArr []), (''abstract'', JStr ''A'')]])]"
  let ?m = "\<lparr>meetingDate = ''2024-02-14'', meetingType = STLLUG,
       presentations = [\<lparr>title = ''T'', presenterNames = [], abstract = ''A'',
          references = None, tags = None, tweet = None\<rparr>],
       meetupUrl = None, youtubeUrl = None, youtubeTitle = None, image = None\<rparr>"
  have h: "parseMeetingFile (JObj ((''meetingDate'', JStr ''2024-02-14'') # ?mfs)) = Inr ?m"
    by (simp add: schema_defs)
  have n: "\<forall>s. property (JObj ((''meetingDate'', JNum 20240214) # ?mfs)) ''meetingDate'' \<noteq> Some (JStr s)"
    by (simp add: property_def)
  show ?thesis
    using h n
      meetingDate_any_string [of "''2024-02-14''" ?mfs ?m "''14 February''"
        "JObj ((''meetingDate'', JNum 20240214) # ?mfs)"]
    by simp
qed

theorem meetingSchema_presentations_nonempty_witness:
  "isl (parseMeetingFile (JObj
     [(''meetingDate'', JStr ''2024-02-14''), (''meetingType'', JStr ''SLUUG''),
      (''presentations'', JArr [])]))
   \<and> isl (parseMeetingFile (JObj
     [(''meetingDate'', JStr ''2024-02-14''), (''meetingType'', JStr ''SLUUG'')]))
   \<and> (case parseMeetingFile sample_input of Inl e \<Rightarrow> False | Inr m \<Rightarrow> presentations m \<noteq> [])"
proof -
  let ?d0 = "JObj [(''meetingDate'', JStr ''2024-02-14''), (''meetingType'', JStr ''SLUUG''),
      (''presentations'', JArr [])]"
  let ?d1 = "JObj [(''meetingDate'', JStr ''2024-02-14''), (''meetingType'', JStr ''SLUUG'')]"
  have h0: "property ?d0 ''presentations'' = Some (JArr [])" by (simp add: property_def)
  have h1: "property ?d1 ''presentations'' = None" by (simp add: property_def)
  have "\<not> isl (parseMeetingFile sample_input)" by code_simp
  then obtain m where h2: "parseMeetingFile sample_input = Inr m"
    by (cases "parseMeetingFile sample_input") auto
  show ?thesis
    using h0 h1 h2
      meetingSchema_presentations_nonempty [of ?d0 m]
      meetingSchema_presentations_nonempty [of ?d1 m]
      meetingSchema_presentations_nonempty [of sample_input m]
    by simp
qed

subsection \<open>Arguments of the tool calls\<close>

text \<open>
  The tools reject arguments of the wrong size: three posts and three titles are
  required, and at most three tags are allowed.
\<close>

lemma zodFunction_tweetTool_rejects:
  "isl (zodFunction tweetTool tweetToolParamsSchema (JObj [(''tweets'', JArr (map JStr ws))]))
     \<longleftrightarrow> length ws \<noteq> 3"
  by (auto simp: zodFunction_def tweetToolParamsSchema_def ap_def field_def
        z_length_def z_size_def z_array_strings)

lemma zodFunction_tagTool_rejects:
  "isl (zodFunction tagTool tagToolParamsSchema (JObj [(''tags'', JArr (map JStr ts))]))
     \<longleftrightarrow> 3 < length ts"
  by (auto simp: zodFunction_def tagToolParamsSchema_def ap_def field_def
        z_max_def z_size_def z_array_strings)

lemma zodFunction_youTubeTitleTool_rejects:
  "isl (zodFunction youTubeTitleTool youtubeTitleToolParamsSchema (JObj [(''titles'', JArr (map JStr ts))]))
     \<longleftrightarrow> length ts \<noteq> 3"
  by (auto simp: zodFunction_def youtubeTitleToolParamsSchema_def ap_def field_def
        z_length_def z_size_def z_array_strings)

subsection \<open>Requests issued by a call\<close>

lemma await_Inr_iff:
  "await m f sent = (Inr b, sent'') \<longleftrightarrow>
     (\<exists>a sent'. m sent = (Inr a, sent') \<and> f a sent' = (Inr b, sent''))"
  by (auto simp: await_def split: prod.splits sum.splits)

lemma resolve_iff: "resolve a sent = (r, sent') \<longleftrightarrow> r = Inr a \<and> sent' = sent"
  by (auto simp: resolve_def)

lemma reject_iff: "reject e sent = (r, sent') \<longleftrightarrow> r = Inl e \<and> sent' = sent"
  by (auto simp: reject_def)

lemma not_isl_fstD: "\<not> isl (fst x) \<Longrightarrow> \<exists>a s. x = (Inr a, s)"
  by (cases x; cases "fst x") auto

lemma not_islD: "\<not> isl x \<Longrightarrow> \<exists>a. x = Inr a"
  by (cases x) auto

text \<open>A call puts its request at least once and at most as often as it has rounds.\<close>

lemma runTools_loop_sent:
  "runTools_loop openAi name tool text k lastMessage sent = (r, sent') \<Longrightarrow>
     \<exists>j. j \<le> k \<and> (0 < k \<longrightarrow> 0 < j) \<and> sent' = sent @ replicate j (RunTools name text)"
proof (induction k arbitrary: lastMessage sent)
  case 0
  then show ?case by simp
next
  case (Suc k)
  show ?case
  proof (cases "runTools openAi (length sent) name text")
    case (Inl e)
    with Suc.prems have "sent' = sent @ replicate 1 (RunTools name text)" by simp
    then show ?thesis by (metis One_nat_def Suc_le_mono le0 zero_less_one)
  next
    case (Inr answer)
    show ?thesis
    proof (cases answer)
      case None
      with Inr Suc.prems have "sent' = sent @ replicate 1 (RunTools name text)" by simp
      then show ?thesis by (metis One_nat_def Suc_le_mono le0 zero_less_one)
    next
      case (Some input)
      show ?thesis
      proof (cases "tool input")
        case (Inr res)
        with Some \<open>runTools openAi (length sent) name text = Inr answer\<close> Suc.prems
        have "sent' = sent @ replicate 1 (RunTools name text)" by simp
        then show ?thesis by (metis One_nat_def Suc_le_mono le0 zero_less_one)
      next
        case (Inl issues)
        with Some \<open>runTools openAi (length sent) name text = Inr answer\<close> Suc.prems
        have "runTools_loop openAi name tool text k (Some (ZodError_message issues))
                (sent @ [RunTools name text]) = (r, sent')" by simp
        from Suc.IH [OF this] obtain j where
          j: "j \<le> k" and s: "sent' = (sent @ [RunTools name text]) @ replicate j (RunTools name text)"
          by blast
        from s have "sent' = sent @ replicate (Suc j) (RunTools name text)" by simp
        with j show ?thesis by (metis Suc_le_mono zero_less_Suc)
      qed
    qed
  qed
qed

lemma finalFunctionCallResult_sent:
  assumes "finalFunctionCallResult openAi name tool text sent = (r, sent')"
  shows "\<exists>j. 1 \<le> j \<and> j \<le> DEFAULT_MAX_CHAT_COMPLETIONS \<and>
              sent' = sent @ replicate j (RunTools name text)"
proof -
  from assms have "runTools_loop openAi name tool text DEFAULT_MAX_CHAT_COMPLETIONS None sent = (r, sent')"
    by (simp add: finalFunctionCallResult_def)
  from runTools_loop_sent [OF this] show ?thesis
    by (auto simp: DEFAULT_MAX_CHAT_COMPLETIONS_def)
qed

text \<open>When the arguments that the model returns are always accepted, a call is one request.\<close>

lemma runTools_loop_sent_accepted:
  assumes "\<forall>n a. runTools openAi n name text = Inr (Some a) \<longrightarrow> \<not> isl (tool a)"
      and l: "runTools_loop openAi name tool text (Suc k) lastMessage sent = (r, sent')"
  shows "sent' = sent @ [RunTools name text]"
proof (cases "runTools openAi (length sent) name text")
  case (Inl e)
  with l show ?thesis by simp
next
  case (Inr answer)
  show ?thesis
  proof (cases answer)
    case None
    with Inr l show ?thesis by simp
  next
    case (Some input)
    with Inr assms(1) have "\<not> isl (tool input)" by blast
    then obtain res where "tool input = Inr res" by (blast dest: not_islD)
    with Some Inr l show ?thesis by simp
  qed
qed

lemma finalFunctionCallResult_sent_accepted:
  assumes "\<forall>n a. runTools openAi n name text = Inr (Some a) \<longrightarrow> \<not> isl (tool a)"
      and "finalFunctionCallResult openAi name tool text sent = (r, sent')"
  shows "sent' = sent @ [RunTools name text]"
proof -
  obtain k where "DEFAULT_MAX_CHAT_COMPLETIONS = Suc k"
    by (cases DEFAULT_MAX_CHAT_COMPLETIONS) (simp_all add: DEFAULT_MAX_CHAT_COMPLETIONS_def)
  with assms(2) have "runTools_loop openAi name tool text (Suc k) None sent = (r, sent')"
    by (simp add: finalFunctionCallResult_def)
  with assms(1) show ?thesis by (rule runTools_loop_sent_accepted)
qed

text \<open>
  When the first \<open>j\<close> answers are rejected and the next one is accepted, within the
  rounds of the call, the call returns what the tool's function made of that answer.
\<close>

lemma runTools_loop_asks_again:
  assumes "\<forall>i<j. \<exists>a. runTools openAi (length sent + i) name text = Inr (Some a) \<and> isl (tool a)"
      and "runTools openAi (length sent + j) name text = Inr (Some a')"
      and "tool a' = Inr res"
      and "j < k"
  shows "runTools_loop openAi name tool text k lastMessage sent
           = (Inr (Some res), sent @ replicate (Suc j) (RunTools name text))"
  using assms
proof (induction j arbitrary: k sent lastMessage)
  case 0
  then obtain k' where "k = Suc k'" by (cases k) auto
  with 0 show ?case by simp
next
  case (Suc j)
  then obtain k' where k: "k = Suc k'" and jk: "j < k'" by (cases k) auto
  from Suc.prems(1) obtain a where
    a: "runTools openAi (length sent) name text = Inr (Some a)" and r: "isl (tool a)"
    by (metis add.right_neutral zero_less_Suc)
  from r obtain issues where i: "tool a = Inl issues" by (cases "tool a") auto
  let ?sent = "sent @ [RunTools name text]"
  have 1: "\<forall>i<j. \<exists>a. runTools openAi (length ?sent + i) name text = Inr (Some a) \<and> isl (tool a)"
  proof (intro allI impI)
    fix i assume "i < j"
    then have "Suc i < Suc j" by simp
    with Suc.prems(1) show "\<exists>a. runTools openAi (length ?sent + i) name text = Inr (Some a) \<and> isl (tool a)"
      by (metis add_Suc_right add_Suc length_append_singleton)
  qed
  have 2: "runTools openAi (length ?sent + j) name text = Inr (Some a')"
    using Suc.prems(2) by simp
  from Suc.IH [OF 1 2 Suc.prems(3) jk]
  have "runTools_loop openAi name tool text k' (Some (ZodError_message issues)) ?sent
          = (Inr (Some res), ?sent @ replicate (Suc j) (RunTools name text))" .
  with a i k show ?case by (simp add: replicate_append_same)
qed

subsection \<open>Requests issued by a stage\<close>

lemma generateYouTubeTitleFromPrompt_sent:
  assumes "generateYouTubeTitleFromPrompt openAi prompt d t sent = (r, sent')"
  shows "\<exists>j. 1 \<le> j \<and> j \<le> DEFAULT_MAX_CHAT_COMPLETIONS \<and>
              sent' = sent @ replicate j (RunTools ''youTubeTitleTool'' prompt)"
proof -
  obtain r0 s0 where f: "finalFunctionCallResult openAi ''youTubeTitleTool''
      (zodFunction youTubeTitleTool youtubeTitleToolParamsSchema) prompt sent = (r0, s0)"
    by (cases "finalFunctionCallResult openAi ''youTubeTitleTool''
      (zodFunction youTubeTitleTool youtubeTitleToolParamsSchema) prompt sent")
  with assms have "sent' = s0"
    by (auto simp: generateYouTubeTitleFromPrompt_def await_def resolve_def reject_def
          split: sum.splits option.splits)
  with finalFunctionCallResult_sent [OF f] show ?thesis by simp
qed

lemma generateYouTubeTitleFromPrompt_sent_accepted:
  assumes "\<forall>n text a. runTools openAi n ''youTubeTitleTool'' text = Inr (Some a) \<longrightarrow>
             \<not> isl (zodFunction youTubeTitleTool youtubeTitleToolParamsSchema a)"
      and "generateYouTubeTitleFromPrompt openAi prompt d t sent = (r, sent')"
  shows "sent' = sent @ [RunTools ''youTubeTitleTool'' prompt]"
proof -
  obtain r0 s0 where f: "finalFunctionCallResult openAi ''youTubeTitleTool''
      (zodFunction youTubeTitleTool youtubeTitleToolParamsSchema) prompt sent = (r0, s0)"
    by (cases "finalFunctionCallResult openAi ''youTubeTitleTool''
      (zodFunction youTubeTitleTool youtubeTitleToolParamsSchema) prompt sent")
  with assms(2) have "sent' = s0"
    by (auto simp: generateYouTubeTitleFromPrompt_def await_def resolve_def reject_def
          split: sum.splits option.splits)
  moreover from assms(1) have
    "\<forall>n a. runTools openAi n ''youTubeTitleTool'' prompt = Inr (Some a) \<longrightarrow>
             \<not> isl (zodFunction youTubeTitleTool youtubeTitleToolParamsSchema a)" by blast
  from finalFunctionCallResult_sent_accepted [OF this f]
  have "s0 = sent @ [RunTools ''youTubeTitleTool'' prompt]" .
  ultimately show ?thesis by simp
qed

lemma generateImageDesignIdeaFromPrompt_sent:
  "generateImageDesignIdeaFromPrompt openAi prompt sent = (r, sent') \<Longrightarrow>
     sent' = sent @ [Create prompt]"
  by (auto simp: generateImageDesignIdeaFromPrompt_def)

lemma run_all_sent:
  assumes "\<And>x sent r sent'. f x sent = (r, sent') \<Longrightarrow> sent' = sent @ [g x]"
  shows "run_all (map f xs) sent = (rs, sent') \<Longrightarrow> sent' = sent @ map g xs"
proof (induction xs arbitrary: sent rs sent')
  case Nil
  then show ?case by simp
next
  case (Cons x xs)
  obtain r1 s1 where m: "f x sent = (r1, s1)" by (cases "f x sent")
  obtain rs1 s2 where r: "run_all (map f xs) s1 = (rs1, s2)" by (cases "run_all (map f xs) s1")
  from Cons.prems m r have "sent' = s2" by simp
  moreover from Cons.IH [OF r] have "s2 = s1 @ map g xs" .
  moreover from assms [OF m] have "s1 = sent @ [g x]" .
  ultimately show ?case by simp
qed

lemma Promise_all_sent:
  assumes "\<And>x sent r sent'. f x sent = (r, sent') \<Longrightarrow> sent' = sent @ [g x]"
  shows "Promise_all (map f xs) sent = (r, sent') \<Longrightarrow> sent' = sent @ map g xs"
  using run_all_sent [of f g, OF assms]
  by (auto simp: Promise_all_def split: prod.splits)

lemma run_all_blocks:
  assumes "\<And>x sent r sent'. f x sent = (r, sent') \<Longrightarrow>
             \<exists>j. P j \<and> sent' = sent @ replicate j (c (h x))"
  shows "run_all (map f xs) sent = (rs, sent') \<Longrightarrow>
           \<exists>ks. length ks = length xs \<and> (\<forall>k \<in> set ks. P k) \<and>
                sent' = sent @ concat (map (\<lambda>(k, p). replicate k (c p)) (zip ks (map h xs)))"
proof (induction xs arbitrary: sent rs sent')
  case Nil
  then show ?case by simp
next
  case (Cons x xs)
  obtain r1 s1 where m: "f x sent = (r1, s1)" by (cases "f x sent")
  obtain rs1 s2 where r: "run_all (map f xs) s1 = (rs1, s2)" by (cases "run_all (map f xs) s1")
  from Cons.prems m r have e: "sent' = s2" by simp
  from Cons.IH [OF r] obtain ks where
    ks: "length ks = length xs" "\<forall>k \<in> set ks. P k" and
    s2: "s2 = s1 @ concat (map (\<lambda>(k, p). replicate k (c p)) (zip ks (map h xs)))"
    by blast
  from assms [OF m] obtain j where j: "P j" and s1: "s1 = sent @ replicate j (c (h x))"
    by blast
  have "length (j # ks) = length (x # xs)" using ks by simp
  moreover have "\<forall>k \<in> set (j # ks). P k" using ks j by simp
  moreover have "sent' = sent @ concat (map (\<lambda>(k, p). replicate k (c p)) (zip (j # ks) (map h (x # xs))))"
    using e s1 s2 by simp
  ultimately show ?case by blast
qed

lemma Promise_all_blocks:
  assumes "\<And>x sent r sent'. f x sent = (r, sent') \<Longrightarrow>
             \<exists>j. P j \<and> sent' = sent @ replicate j (c (h x))"
      and "Promise_all (map f xs) sent = (r, sent')"
  shows "\<exists>ks. length ks = length xs \<and> (\<forall>k \<in> set ks. P k) \<and>
              sent' = sent @ concat (map (\<lambda>(k, p). replicate k (c p)) (zip ks (map h xs)))"
proof -
  obtain rs s where r: "run_all (map f xs) sent = (rs, s)" by (cases "run_all (map f xs) sent")
  with assms(2) have "s = sent'" by (simp add: Promise_all_def)
  with run_all_blocks [where f = f and P = P and c = c and h = h, OF assms(1) r]
  show ?thesis by simp
qed

lemma blocks_length:
  "length ks = length ps \<Longrightarrow>
     length (concat (map (\<lambda>(k, p). replicate k (c p)) (zip ks ps))) = sum_list ks"
proof (induction ks arbitrary: ps)
  case Nil
  then show ?case by simp
next
  case (Cons k ks)
  then show ?case by (cases ps) simp_all
qed

lemma sum_list_bounds:
  "\<forall>k \<in> set ks. 1 \<le> k \<and> k \<le> b \<Longrightarrow> length ks \<le> sum_list ks \<and> sum_list ks \<le> b * length ks"
  by (induction ks) (auto simp: algebra_simps)

lemma youTubeTitles_sent:
  assumes "youTubeTitles openAi m sent = (Inr ts, sent')"
  shows "\<exists>ks. length ks = (if length (presentations m) = 1 then 3 else length (presentations m) + 1)
           \<and> (\<forall>k \<in> set ks. 1 \<le> k \<and> k \<le> DEFAULT_MAX_CHAT_COMPLETIONS)
           \<and> sent' = sent @ concat (map (\<lambda>(k, p). replicate k (RunTools ''youTubeTitleTool'' p))
                (zip ks (if length (presentations m) = 1
                   then replicate 3 (convertPresentationToPrompt (hd (presentations m)) False None)
                   else map (\<lambda>p. convertPresentationToPrompt p False None) (presentations m)
                        @ [convertPresentationsToPrompt (presentations m) False None])))"
proof (cases "length (presentations m) = 1")
  case True
  let ?p = "convertPresentationToPrompt (hd (presentations m)) False None"
  from assms True obtain t1 t2 t3 s1 s2 where
    "generateYouTubeTitleFromPrompt openAi ?p (meetingDate m) (meetingType m) sent = (Inr t1, s1)"
    "generateYouTubeTitleFromPrompt openAi ?p (meetingDate m) (meetingType m) s1 = (Inr t2, s2)"
    "generateYouTubeTitleFromPrompt openAi ?p (meetingDate m) (meetingType m) s2 = (Inr t3, sent')"
    by (auto simp: youTubeTitles_def eval_nat_numeral await_Inr_iff resolve_iff)
  then obtain j1 j2 j3 where
    j: "1 \<le> j1 \<and> j1 \<le> DEFAULT_MAX_CHAT_COMPLETIONS"
       "1 \<le> j2 \<and> j2 \<le> DEFAULT_MAX_CHAT_COMPLETIONS"
       "1 \<le> j3 \<and> j3 \<le> DEFAULT_MAX_CHAT_COMPLETIONS" and
    s: "s1 = sent @ replicate j1 (RunTools ''youTubeTitleTool'' ?p)"
       "s2 = s1 @ replicate j2 (RunTools ''youTubeTitleTool'' ?p)"
       "sent' = s2 @ replicate j3 (RunTools ''youTubeTitleTool'' ?p)"
    by (metis generateYouTubeTitleFromPrompt_sent)
  have "length [j1, j2, j3] = 3" by simp
  moreover have "\<forall>k \<in> set [j1, j2, j3]. 1 \<le> k \<and> k \<le> DEFAULT_MAX_CHAT_COMPLETIONS"
    using j by simp
  moreover have "sent' = sent @ concat (map (\<lambda>(k, p). replicate k (RunTools ''youTubeTitleTool'' p))
                    (zip [j1, j2, j3] (replicate 3 ?p)))"
    using s by (simp add: numeral_3_eq_3)
  ultimately have "\<exists>ks. length ks = 3
           \<and> (\<forall>k \<in> set ks. 1 \<le> k \<and> k \<le> DEFAULT_MAX_CHAT_COMPLETIONS)
           \<and> sent' = sent @ concat (map (\<lambda>(k, p). replicate k (RunTools ''youTubeTitleTool'' p))
                    (zip ks (replicate 3 ?p)))"
    by blast
  then show ?thesis by (simp only: if_P [OF True])
next
  case False
  let ?f = "\<lambda>presentation.
                   generateYouTubeTitleFromPrompt openAi
                     (convertPresentationToPrompt presentation False None)
                     (meetingDate m) (meetingType m)"
  let ?h = "\<lambda>p. convertPresentationToPrompt p False None"
  let ?c = "convertPresentationsToPrompt (presentations m) False None"
  from assms False obtain tss s1 combined where
    a: "Promise_all (map ?f (presentations m)) sent = (Inr tss, s1)" and
    b: "generateYouTubeTitleFromPrompt openAi ?c (meetingDate m) (meetingType m) s1
          = (Inr combined, sent')"
    by (auto simp: youTubeTitles_def await_Inr_iff resolve_iff)
  have "\<exists>ks. length ks = length (presentations m)
          \<and> (\<forall>k \<in> set ks. 1 \<le> k \<and> k \<le> DEFAULT_MAX_CHAT_COMPLETIONS)
          \<and> s1 = sent @ concat (map (\<lambda>(k, p). replicate k (RunTools ''youTubeTitleTool'' p))
                           (zip ks (map ?h (presentations m))))"
    by (rule Promise_all_blocks [where f = ?f and h = ?h, OF _ a])
       (blast dest: generateYouTubeTitleFromPrompt_sent)
  then obtain ks where
    ks: "length ks = length (presentations m)"
        "\<forall>k \<in> set ks. 1 \<le> k \<and> k \<le> DEFAULT_MAX_CHAT_COMPLETIONS" and
    s1: "s1 = sent @ concat (map (\<lambda>(k, p). replicate k (RunTools ''youTubeTitleTool'' p))
                           (zip ks (map ?h (presentations m))))"
    by blast
  from generateYouTubeTitleFromPrompt_sent [OF b] obtain j where
    j: "1 \<le> j \<and> j \<le> DEFAULT_MAX_CHAT_COMPLETIONS" and
    s': "sent' = s1 @ replicate j (RunTools ''youTubeTitleTool'' ?c)"
    by blast
  have "length (ks @ [j]) = length (presentations m) + 1" using ks by simp
  moreover have "\<forall>k \<in> set (ks @ [j]). 1 \<le> k \<and> k \<le> DEFAULT_MAX_CHAT_COMPLETIONS"
    using ks j by simp
  moreover have "sent' = sent @ concat (map (\<lambda>(k, p). replicate k (RunTools ''youTubeTitleTool'' p))
                    (zip (ks @ [j]) (map ?h (presentations m) @ [?c])))"
    using s1 s' ks by simp
  ultimately have "\<exists>ks. length ks = length (presentations m) + 1
           \<and> (\<forall>k \<in> set ks. 1 \<le> k \<and> k \<le> DEFAULT_MAX_CHAT_COMPLETIONS)
           \<and> sent' = sent @ concat (map (\<lambda>(k, p). replicate k (RunTools ''youTubeTitleTool'' p))
                    (zip ks (map ?h (presentations m) @ [?c])))"
    by blast
  then show ?thesis by (simp only: if_not_P [OF False])
qed

lemma youTubeTitles_sent_accepted:
  assumes v: "\<forall>n text a. runTools openAi n ''youTubeTitleTool'' text = Inr (Some a) \<longrightarrow>
             \<not> isl (zodFunction youTubeTitleTool youtubeTitleToolParamsSchema a)"
      and "youTubeTitles openAi m sent = (Inr ts, sent')"
  shows "sent' = sent @ map (RunTools ''youTubeTitleTool'')
           (if length (presentations m) = 1
            then replicate 3 (convertPresentationToPrompt (hd (presentations m)) False None)
            else map (\<lambda>p. convertPresentationToPrompt p False None) (presentations m)
                 @ [convertPresentationsToPrompt (presentations m) False None])"
proof (cases "length (presentations m) = 1")
  case True
  with assms(2) show ?thesis
    by (auto simp: youTubeTitles_def eval_nat_numeral await_Inr_iff resolve_iff
          dest!: generateYouTubeTitleFromPrompt_sent_accepted [OF v])
next
  case False
  with assms(2) obtain tss s1 combined where
    a: "Promise_all (map (\<lambda>presentation.
                   generateYouTubeTitleFromPrompt openAi
                     (convertPresentationToPrompt presentation False None)
                     (meetingDate m) (meetingType m))
                 (presentations m)) sent = (Inr tss, s1)" and
    b: "generateYouTubeTitleFromPrompt openAi
          (convertPresentationsToPrompt (presentations m) False None)
          (meetingDate m) (meetingType m) s1 = (Inr combined, sent')"
    by (auto simp: youTubeTitles_def await_Inr_iff resolve_iff)
  have "s1 = sent @ map (\<lambda>p. RunTools ''youTubeTitleTool'' (convertPresentationToPrompt p False None))
                      (presentations m)"
    by (rule Promise_all_sent [OF _ a]) (rule generateYouTubeTitleFromPrompt_sent_accepted [OF v])
  with generateYouTubeTitleFromPrompt_sent_accepted [OF v b] False show ?thesis by simp
qed

lemma designIdeas_sent:
  assumes "designIdeas openAi m sent = (Inr ds, sent')"
  shows "sent' = sent @ map Create
           (if length (presentations m) = 1
            then replicate 3 (convertPresentationToPrompt (hd (presentations m)) False None)
            else map (\<lambda>p. convertPresentationToPrompt p False None) (presentations m)
                 @ [convertPresentationsToPrompt (presentations m) False None])"
proof (cases "length (presentations m) = 1")
  case True
  with assms show ?thesis
    by (auto simp: designIdeas_def eval_nat_numeral await_Inr_iff resolve_iff
          dest!: generateImageDesignIdeaFromPrompt_sent)
next
  case False
  with assms obtain ideas s1 combined where
    a: "Promise_all (map (\<lambda>presentation.
                   generateImageDesignIdeaFromPrompt openAi
                     (convertPresentationToPrompt presentation False None))
                 (presentations m)) sent = (Inr ideas, s1)" and
    b: "generateImageDesignIdeaFromPrompt openAi
          (convertPresentationsToPrompt (presentations m) False None) s1 = (Inr combined, sent')"
    by (auto simp: designIdeas_def await_Inr_iff resolve_iff)
  have "s1 = sent @ map (\<lambda>p. Create (convertPresentationToPrompt p False None)) (presentations m)"
    by (rule Promise_all_sent [OF _ a]) (rule generateImageDesignIdeaFromPrompt_sent)
  with generateImageDesignIdeaFromPrompt_sent [OF b] False show ?thesis by simp
qed

subsection \<open>Fan-out of the title and design stages\<close>

text \<open>
  With answers for the titles that never have three titles, the title stage of a meeting
  with one presentation completes after 30 requests, not 3: each of its three calls
  puts its request 10 times.
\<close>

theorem title_stage_thirty_requests:
  "\<not> isl (fst (youTubeTitles sample_openAi_short
      \<lparr>meetingDate = ''2024-02-14'', meetingType = STLLUG, presentations = [sample_presentation],
        meetupUrl = None, youtubeUrl = None, youtubeTitle = None, image = None\<rparr> []))
   \<and> length (snd (youTubeTitles sample_openAi_short
      \<lparr>meetingDate = ''2024-02-14'', meetingType = STLLUG, presentations = [sample_presentation],
        meetupUrl = None, youtubeUrl = None, youtubeTitle = None, image = None\<rparr> [])) = 30"
  by code_simp

text \<open>
  C1 (as amended). When the title stage, or the design stage, of a meeting completes, it
  has made exactly three generation calls, each for the single presentation, when the
  meeting has one presentation, and otherwise exactly one call for each presentation, in
  order, followed by one call for all presentations combined: \<open>N + 1\<close> calls for \<open>N\<close>
  presentations. A call of the design stage is one request, so the design stage has
  issued exactly 3, respectively \<open>N + 1\<close>, requests. A call of the title stage is one
  request when the arguments that come back pass the schema of the titles; otherwise the
  request is put again, up to 10 requests for one call. So the title stage has issued,
  call after call, between 1 and 10 requests with the prompt of the call, between 3 and
  30 (\<open>N + 1\<close> and \<open>10 (N + 1)\<close>) requests in all, and exactly 3, respectively \<open>N + 1\<close>,
  when every answer passes the schema.
\<close>

theorem fan_out_invocations:
  "(youTubeTitles openAi m sent = (Inr ts, sent') \<longrightarrow>
      (let prompts = (if length (presentations m) = 1
                      then replicate 3 (convertPresentationToPrompt (hd (presentations m)) False None)
                      else map (\<lambda>p. convertPresentationToPrompt p False None) (presentations m)
                           @ [convertPresentationsToPrompt (presentations m) False None]);
           calls = (if length (presentations m) = 1 then 3 else length (presentations m) + 1)
       in length prompts = calls
        \<and> (\<exists>ks. length ks = calls
              \<and> (\<forall>k \<in> set ks. 1 \<le> k \<and> k \<le> DEFAULT_MAX_CHAT_COMPLETIONS)
              \<and> sent' = sent @ concat (map (\<lambda>(k, p). replicate k (RunTools ''youTubeTitleTool'' p))
                                      (zip ks prompts)))
        \<and> length sent + calls \<le> length sent'
        \<and> length sent' \<le> length sent + DEFAULT_MAX_CHAT_COMPLETIONS * calls
        \<and> ((\<forall>n text a. runTools openAi n ''youTubeTitleTool'' text = Inr (Some a) \<longrightarrow>
               \<not> isl (zodFunction youTubeTitleTool youtubeTitleToolParamsSchema a))
            \<longrightarrow> sent' = sent @ map (RunTools ''youTubeTitleTool'') prompts
                \<and> length sent' = length sent + calls)))
   \<and> (designIdeas openAi mt sent = (Inr ds, sent'') \<longrightarrow>
      (let prompts = (if length (presentations mt) = 1
                      then replicate 3 (convertPresentationToPrompt (hd (presentations mt)) False None)
                      else map (\<lambda>p. convertPresentationToPrompt p False None) (presentations mt)
                           @ [convertPresentationsToPrompt (presentations mt) False None]);
           calls = (if length (presentations mt) = 1 then 3 else length (presentations mt) + 1)
       in length prompts = calls
        \<and> sent'' = sent @ map Create prompts
        \<and> length sent'' = length sent + calls))"
proof (intro conjI impI)
  assume a: "youTubeTitles openAi m sent = (Inr ts, sent')"
  define prompts where "prompts = (if length (presentations m) = 1
                      then replicate 3 (convertPresentationToPrompt (hd (presentations m)) False None)
                      else map (\<lambda>p. convertPresentationToPrompt p False None) (presentations m)
                           @ [convertPresentationsToPrompt (presentations m) False None])"
  define calls where "calls = (if length (presentations m) = 1 then 3 else length (presentations m) + 1)"
  have l: "length prompts = calls" by (simp add: prompts_def calls_def)
  from youTubeTitles_sent [OF a] obtain ks where
    ks: "length ks = calls" "\<forall>k \<in> set ks. 1 \<le> k \<and> k \<le> DEFAULT_MAX_CHAT_COMPLETIONS" and
    s: "sent' = sent @ concat (map (\<lambda>(k, p). replicate k (RunTools ''youTubeTitleTool'' p))
                                      (zip ks prompts))"
    unfolding prompts_def calls_def by blast
  from ks(1) l have "length ks = length prompts" by simp
  from blocks_length [OF this, of "RunTools ''youTubeTitleTool''"] s
  have n: "length sent' = length sent + sum_list ks" by simp
  from sum_list_bounds [OF ks(2)] ks(1)
  have b: "calls \<le> sum_list ks" "sum_list ks \<le> DEFAULT_MAX_CHAT_COMPLETIONS * calls" by simp_all
  have e: "sent' = sent @ map (RunTools ''youTubeTitleTool'') prompts
             \<and> length sent' = length sent + calls"
    if v: "\<forall>n text a. runTools openAi n ''youTubeTitleTool'' text = Inr (Some a) \<longrightarrow>
               \<not> isl (zodFunction youTubeTitleTool youtubeTitleToolParamsSchema a)"
  proof -
    from youTubeTitles_sent_accepted [OF v a]
    have "sent' = sent @ map (RunTools ''youTubeTitleTool'') prompts"
      unfolding prompts_def .
    with l show ?thesis by simp
  qed
  have "length prompts = calls
        \<and> (\<exists>ks. length ks = calls
              \<and> (\<forall>k \<in> set ks. 1 \<le> k \<and> k \<le> DEFAULT_MAX_CHAT_COMPLETIONS)
              \<and> sent' = sent @ concat (map (\<lambda>(k, p). replicate k (RunTools ''youTubeTitleTool'' p))
                                      (zip ks prompts)))
        \<and> length sent + calls \<le> length sent'
        \<and> length sent' \<le> length sent + DEFAULT_MAX_CHAT_COMPLETIONS * calls
        \<and> ((\<forall>n text a. runTools openAi n ''youTubeTitleTool'' text = Inr (Some a) \<longrightarrow>
               \<not> isl (zodFunction youTubeTitleTool youtubeTitleToolParamsSchema a))
            \<longrightarrow> sent' = sent @ map (RunTools ''youTubeTitleTool'') prompts
                \<and> length sent' = length sent + calls)"
    using l ks s n b e by (intro conjI impI) (blast, blast, simp, simp, blast+)
  then show "let prompts = (if length (presentations m) = 1
                      then replicate 3 (convertPresentationToPrompt (hd (presentations m)) False None)
                      else map (\<lambda>p. convertPresentationToPrompt p False None) (presentations m)
                           @ [convertPresentationsToPrompt (presentations m) False None]);
           calls = (if length (presentations m) = 1 then 3 else length (presentations m) + 1)
       in length prompts = calls
        \<and> (\<exists>ks. length ks = calls
              \<and> (\<forall>k \<in> set ks. 1 \<le> k \<and> k \<le> DEFAULT_MAX_CHAT_COMPLETIONS)
              \<and> sent' = sent @ concat (map (\<lambda>(k, p). replicate k (RunTools ''youTubeTitleTool'' p))
                                      (zip ks prompts)))
        \<and> length sent + calls \<le> length sent'
        \<and> length sent' \<le> length sent + DEFAULT_MAX_CHAT_COMPLETIONS * calls
        \<and> ((\<forall>n text a. runTools openAi n ''youTubeTitleTool'' text = Inr (Some a) \<longrightarrow>
               \<not> isl (zodFunction youTubeTitleTool youtubeTitleToolParamsSchema a))
            \<longrightarrow> sent' = sent @ map (RunTools ''youTubeTitleTool'') prompts
                \<and> length sent' = length sent + calls)"
    unfolding Let_def prompts_def calls_def .
next
  assume a: "designIdeas openAi mt sent = (Inr ds, sent'')"
  from designIdeas_sent [OF a]
  show "let prompts = (if length (presentations mt) = 1
                      then replicate 3 (convertPresentationToPrompt (hd (presentations mt)) False None)
                      else map (\<lambda>p. convertPresentationToPrompt p False None) (presentations mt)
                           @ [convertPresentationsToPrompt (presentations mt) False None]);
           calls = (if length (presentations mt) = 1 then 3 else length (presentations mt) + 1)
       in length prompts = calls
        \<and> sent'' = sent @ map Create prompts
        \<and> length sent'' = length sent + calls"
    by (simp add: Let_def)
qed

theorem fan_out_invocations_witness:
  "length (snd (youTubeTitles sample_openAi
      \<lparr>meetingDate = ''2024-02-14'', meetingType = STLLUG, presentations = [sample_presentation],
        meetupUrl = None, youtubeUrl = None, youtubeTitle = None, image = None\<rparr> [])) = 3
   \<and> length (snd (youTubeTitles sample_openAi
      \<lparr>meetingDate = ''2024-02-14'', meetingType = SLUUG,
        presentations = [sample_presentation, sample_presentation, sample_presentation],
        meetupUrl = None, youtubeUrl = None, youtubeTitle = None, image = None\<rparr> [])) = 4
   \<and> 3 \<le> length (snd (youTubeTitles sample_openAi_short
      \<lparr>meetingDate = ''2024-02-14'', meetingType = STLLUG, presentations = [sample_presentation],
        meetupUrl = None, youtubeUrl = None, youtubeTitle = None, image = None\<rparr> []))
   \<and> length (snd (youTubeTitles sample_openAi_short
      \<lparr>meetingDate = ''2024-02-14'', meetingType = STLLUG, presentations = [sample_presentation],
        meetupUrl = None, youtubeUrl = None, youtubeTitle = None, image = None\<rparr> [])) \<le> 30
   \<and> length (snd (designIdeas sample_openAi
      \<lparr>meetingDate = ''2024-02-14'', meetingType = STLLUG, presentations = [sample_presentation],
        meetupUrl = None, youtubeUrl = None, youtubeTitle = None, image = None,
        youTubeTitle = []\<rparr> [])) = 3
   \<and> length (snd (designIdeas sample_openAi
      \<lparr>meetingDate = ''2024-02-14'', meetingType = SLUUG,
        presentations = [sample_presentation, sample_presentation, sample_presentation],
        meetupUrl = None, youtubeUrl = None, youtubeTitle = None, image = None,
        youTubeTitle = []\<rparr> [])) = 4"
proof -
  let ?m1 = "\<lparr>meetingDate = ''2024-02-14'', meetingType = STLLUG, presentations = [sample_presentation],
        meetupUrl = None, youtubeUrl = None, youtubeTitle = None, image = None\<rparr>"
  let ?m3 = "\<lparr>meetingDate = ''2024-02-14'', meetingType = SLUUG,
        presentations = [sample_presentation, sample_presentation, sample_presentation],
        meetupUrl = None, youtubeUrl = None, youtubeTitle = None, image = None\<rparr>"
  let ?t1 = "\<lparr>meetingDate = ''2024-02-14'', meetingType = STLLUG, presentations = [sample_presentation],
        meetupUrl = None, youtubeUrl = None, youtubeTitle = None, image = None,
        youTubeTitle = []\<rparr>"
  let ?t3 = "\<lparr>meetingDate = ''2024-02-14'', meetingType = SLUUG,
        presentations = [sample_presentation, sample_presentation, sample_presentation],
        meetupUrl = None, youtubeUrl = None, youtubeTitle = None, image = None,
        youTubeTitle = []\<rparr>"
  have "\<not> isl (zodFunction youTubeTitleTool youtubeTitleToolParamsSchema
          (JObj [(''titles'', JArr [JStr ''Containers 101'', JStr ''Why Containers'', JStr ''Hello Containers''])]))"
    by code_simp
  then have v: "\<forall>n text a. runTools sample_openAi n ''youTubeTitleTool'' text = Inr (Some a) \<longrightarrow>
               \<not> isl (zodFunction youTubeTitleTool youtubeTitleToolParamsSchema a)"
    by (auto simp: sample_openAi_def)
  have "\<not> isl (fst (youTubeTitles sample_openAi ?m1 []))" by code_simp
  then obtain ts1 s1 where e1: "youTubeTitles sample_openAi ?m1 [] = (Inr ts1, s1)"
    by (blast dest: not_isl_fstD)
  have "\<not> isl (fst (youTubeTitles sample_openAi ?m3 []))" by code_simp
  then obtain ts3 s3 where e3: "youTubeTitles sample_openAi ?m3 [] = (Inr ts3, s3)"
    by (blast dest: not_isl_fstD)
  have "\<not> isl (fst (youTubeTitles sample_openAi_short ?m1 []))" by code_simp
  then obtain ts2 s2 where e2: "youTubeTitles sample_openAi_short ?m1 [] = (Inr ts2, s2)"
    by (blast dest: not_isl_fstD)
  have "\<not> isl (fst (designIdeas sample_openAi ?t1 []))" by code_simp
  then obtain ds1 r1 where d1: "designIdeas sample_openAi ?t1 [] = (Inr ds1, r1)"
    by (blast dest: not_isl_fstD)
  have "\<not> isl (fst (designIdeas sample_openAi ?t3 []))" by code_simp
  then obtain ds3 r3 where d3: "designIdeas sample_openAi ?t3 [] = (Inr ds3, r3)"
    by (blast dest: not_isl_fstD)
  from e1 d1 v fan_out_invocations [of sample_openAi ?m1 "[]" ts1 s1 ?t1 ds1 r1]
  have c1: "length s1 = 3" "length r1 = 3" by (simp_all add: Let_def)
  from e3 d3 v fan_out_invocations [of sample_openAi ?m3 "[]" ts3 s3 ?t3 ds3 r3]
  have c3: "length s3 = 4" "length r3 = 4" by (simp_all add: Let_def)
  from e2 d1 fan_out_invocations [of sample_openAi_short ?m1 "[]" ts2 s2 ?t1 ds1 r1]
  have c2: "3 \<le> length s2" "length s2 \<le> 30"
    by (simp_all add: Let_def DEFAULT_MAX_CHAT_COMPLETIONS_def)
  show ?thesis
    using c1 c2 c3 by (simp add: e1 e2 e3 d1 d3)
qed

subsection \<open>Video titles\<close>

text \<open>
  C4. For the meeting of the end-to-end scenario, which has one presentation, the record
  that the run hands to the output has nine video titles, not three: the loop over the
  single presentation calls the title generation three times, and every call returns
  three titles. Each of the nine ends in the meeting type and the meeting date.
\<close>

theorem single_presentation_nine_titles:
  "map_sum id youTubeTitle (fst (main sample_openAi sample_input (Some ''sk-test'') [])) =
     Inr [''Containers 101 | SLUUG 2024-02-14'', ''Why Containers | SLUUG 2024-02-14'',
          ''Hello Containers | SLUUG 2024-02-14'',
          ''Containers 101 | SLUUG 2024-02-14'', ''Why Containers | SLUUG 2024-02-14'',
          ''Hello Containers | SLUUG 2024-02-14'',
          ''Containers 101 | SLUUG 2024-02-14'', ''Why Containers | SLUUG 2024-02-14'',
          ''Hello Containers | SLUUG 2024-02-14'']"
  by code_simp

lemma z_length_Inr:
  assumes "z_length n (z_array t) path v = Inr a"
  shows "length a = n"
proof -
  from assms obtain xs where v: "v = Some (JArr xs)" and a: "z_items t path 0 xs = Inr a"
    by (auto simp: z_length_def z_size_Inr_iff z_array_Inr_iff)
  from assms v have "length xs = n"
    by (auto simp: z_length_def z_size_def split: if_splits)
  with z_items_length [OF a] show ?thesis by simp
qed

lemma zodFunction_titles_length:
  assumes "zodFunction youTubeTitleTool youtubeTitleToolParamsSchema input = Inr r"
  shows "length r = 3"
proof -
  from assms obtain fs where
    "z_length 3 (z_array z_string) [Key ''titles''] (map_of fs ''titles'') = Inr r"
    by (auto simp: zodFunction_def youtubeTitleToolParamsSchema_def youTubeTitleTool_def
          ap_Inr_iff field_def split: sum.splits option.splits json.splits)
  then show ?thesis by (rule z_length_Inr)
qed

lemma runTools_loop_accepted_result:
  assumes "\<forall>n a. runTools openAi n name text = Inr (Some a) \<longrightarrow> \<not> isl (tool a)"
      and l: "runTools_loop openAi name tool text (Suc k) None sent = (Inr (Some r), sent')"
  shows "\<exists>a. tool a = Inr r"
proof (cases "runTools openAi (length sent) name text")
  case (Inl e)
  with l show ?thesis by simp
next
  case (Inr answer)
  show ?thesis
  proof (cases answer)
    case None
    with Inr l show ?thesis by simp
  next
    case (Some input)
    with Inr assms(1) have "\<not> isl (tool input)" by blast
    then obtain res where "tool input = Inr res" by (blast dest: not_islD)
    with Some Inr l show ?thesis by auto
  qed
qed

lemma generateYouTubeTitleFromPrompt_accepted_Inr:
  assumes v: "\<forall>n text a. runTools openAi n ''youTubeTitleTool'' text = Inr (Some a) \<longrightarrow>
             \<not> isl (zodFunction youTubeTitleTool youtubeTitleToolParamsSchema a)"
      and g: "generateYouTubeTitleFromPrompt openAi prompt d t sent = (Inr ts, sent')"
  shows "\<exists>g. length g = 3 \<and> ts = suffixTitleWithMeetingDateAndType g d t"
proof -
  from g obtain r where
    f: "finalFunctionCallResult openAi ''youTubeTitleTool''
          (zodFunction youTubeTitleTool youtubeTitleToolParamsSchema) prompt sent
        = (Inr (Some r), sent')" and
    ts: "ts = suffixTitleWithMeetingDateAndType r d t"
    by (auto simp: generateYouTubeTitleFromPrompt_def await_Inr_iff resolve_iff reject_iff
          split: option.splits)
  obtain k where "DEFAULT_MAX_CHAT_COMPLETIONS = Suc k"
    by (cases DEFAULT_MAX_CHAT_COMPLETIONS) (simp_all add: DEFAULT_MAX_CHAT_COMPLETIONS_def)
  with f have l: "runTools_loop openAi ''youTubeTitleTool''
          (zodFunction youTubeTitleTool youtubeTitleToolParamsSchema) prompt (Suc k) None sent
        = (Inr (Some r), sent')"
    by (simp add: finalFunctionCallResult_def)
  from v have "\<forall>n a. runTools openAi n ''youTubeTitleTool'' prompt = Inr (Some a) \<longrightarrow>
             \<not> isl (zodFunction youTubeTitleTool youtubeTitleToolParamsSchema a)" by blast
  from runTools_loop_accepted_result [OF this l] obtain a where
    "zodFunction youTubeTitleTool youtubeTitleToolParamsSchema a = Inr r" by blast
  then have "length r = 3" by (rule zodFunction_titles_length)
  with ts show ?thesis by blast
qed

text \<open>
  The same for every meeting with one presentation, in every environment whose answers
  for the titles pass the schema: when the title stage completes, it has produced nine
  titles, each ending in the type and the date.
\<close>

lemma youTubeTitles_single:
  assumes v: "\<forall>n text a. runTools openAi n ''youTubeTitleTool'' text = Inr (Some a) \<longrightarrow>
             \<not> isl (zodFunction youTubeTitleTool youtubeTitleToolParamsSchema a)"
      and "length (presentations m) = 1" and "youTubeTitles openAi m sent = (Inr ts, sent')"
  shows "length ts = 9 \<and>
         (\<forall>t \<in> set ts. \<exists>g. t = g @ '' | '' @ MeetingType_string (meetingType m) @ '' '' @ meetingDate m)"
proof -
  from assms(2,3) obtain s1 s2 s3 t1 t2 t3 where
    "generateYouTubeTitleFromPrompt openAi
       (convertPresentationToPrompt (hd (presentations m)) False None)
       (meetingDate m) (meetingType m) s1 = (Inr t1, s2)"
    "generateYouTubeTitleFromPrompt openAi
       (convertPresentationToPrompt (hd (presentations m)) False None)
       (meetingDate m) (meetingType m) s2 = (Inr t2, s3)"
    "generateYouTubeTitleFromPrompt openAi
       (convertPresentationToPrompt (hd (presentations m)) False None)
       (meetingDate m) (meetingType m) s3 = (Inr t3, sent')"
    and ts: "ts = (t1 @ t2) @ t3"
    by (auto simp: youTubeTitles_def eval_nat_numeral await_Inr_iff resolve_iff)
  then obtain g1 g2 g3 where
    "length g1 = 3" "t1 = suffixTitleWithMeetingDateAndType g1 (meetingDate m) (meetingType m)"
    "length g2 = 3" "t2 = suffixTitleWithMeetingDateAndType g2 (meetingDate m) (meetingType m)"
    "length g3 = 3" "t3 = suffixTitleWithMeetingDateAndType g3 (meetingDate m) (meetingType m)"
    by (metis generateYouTubeTitleFromPrompt_accepted_Inr [OF v])
  with ts show ?thesis
    by (auto simp: suffixTitleWithMeetingDateAndType_def)
qed

subsection \<open>What a stage changes\<close>

lemma generateTags_Inr:
  "generateTags openAi p sent = (Inr p', sent') \<Longrightarrow>
     \<exists>r. finalFunctionCallResult openAi ''tagTool'' (zodFunction tagTool tagToolParamsSchema)
            (convertPresentationToPrompt p False None) sent = (Inr (Some r), sent')
          \<and> p' = p\<lparr>tags := Some r\<rparr>"
  by (auto simp: generateTags_def await_Inr_iff resolve_iff reject_iff split: option.splits)

lemma generateTweets_Inr:
  "generateTweets openAi p d sent = (Inr p', sent') \<Longrightarrow>
     \<exists>r. finalFunctionCallResult openAi ''tweetTool'' (zodFunction tweetTool tweetToolParamsSchema)
            (convertPresentationToPrompt p True (Some d)) sent = (Inr (Some r), sent')
          \<and> p' = p\<lparr>tweet := Some r\<rparr>"
  by (auto simp: generateTweets_def await_Inr_iff resolve_iff reject_iff split: option.splits)

lemma addLinkToTweets_Inr:
  assumes "addLinkToTweets p l = Inr p'"
  shows "\<exists>ts. tweet p = Some ts \<and>
           p' = p\<lparr>tweet := Some (map (\<lambda>t. trimEnd (t @ '' '' @ (case l of None \<Rightarrow> [] | Some u \<Rightarrow> u))) ts)\<rparr>"
proof -
  from assms obtain ts where ts: "tweet p = Some ts"
    by (cases "tweet p") (simp_all add: addLinkToTweets_def)
  show ?thesis
  proof (cases l)
    case None
    with assms ts show ?thesis
      by (auto simp: addLinkToTweets_def truthy_def trimEnd_space)
  next
    case (Some u)
    with assms ts show ?thesis
      by (cases "u = []") (auto simp: addLinkToTweets_def truthy_def trimEnd_space)
  qed
qed

lemma run_all_settle:
  assumes "\<And>x y s s'. f x s = (Inr y, s') \<Longrightarrow> Q x y"
  shows "run_all (map f xs) sent = (rs, sent') \<Longrightarrow> settle rs = Inr ys \<Longrightarrow> list_all2 Q xs ys"
proof (induction xs arbitrary: sent rs sent' ys)
  case Nil
  then show ?case by simp
next
  case (Cons x xs)
  obtain r1 s1 where m: "f x sent = (r1, s1)" by (cases "f x sent")
  obtain rs1 s2 where r: "run_all (map f xs) s1 = (rs1, s2)" by (cases "run_all (map f xs) s1")
  from Cons.prems(1) m r have rs: "rs = r1 # rs1" by simp
  with Cons.prems(2) obtain y ys1 where
    r1: "r1 = Inr y" and ys1: "settle rs1 = Inr ys1" and ys: "ys = y # ys1"
    by (cases r1) (auto split: sum.splits)
  from assms m r1 have "Q x y" by blast
  moreover from Cons.IH [OF r ys1] have "list_all2 Q xs ys1" .
  ultimately show ?case using ys by simp
qed

lemma Promise_all_Inr:
  assumes "\<And>x y s s'. f x s = (Inr y, s') \<Longrightarrow> Q x y"
      and "Promise_all (map f xs) sent = (Inr ys, sent')"
  shows "list_all2 Q xs ys"
proof -
  obtain rs s where r: "run_all (map f xs) sent = (rs, s)" by (cases "run_all (map f xs) sent")
  with assms(2) have "settle rs = Inr ys" by (simp add: Promise_all_def)
  from run_all_settle [where f = f and Q = Q, OF _ r this] assms(1) show ?thesis by blast
qed

text \<open>
  C9 (as amended). A stage that completes returns its input with the stage's own field
  replaced by what was generated, whether or not the input had the field set, and with
  every other field as it was:
  \<^item> \<open>generateTags\<close> sets \<open>tags\<close> to the result of its call of the tag tool;
  \<^item> \<open>generateTweets\<close> sets \<open>tweet\<close> to the result of its call of the post tool, and
    \<open>addLinkToTweets\<close> sets \<open>tweet\<close> to the posts with the link appended;
  \<^item> at the level of the meeting, the tag stage and the post stage replace
    \<open>presentations\<close> by a list of the same length, in which every presentation is the
    old one with \<open>tags\<close>, respectively \<open>tweet\<close>, set to a generated list;
  \<^item> the title stage adds \<open>youTubeTitle\<close>, holding the titles generated, and leaves every
    field of the meeting as it was;
  \<^item> the image stage sets \<open>image\<close> to the images made from the design ideas.
\<close>

theorem stages_replace_own_field:
  "(generateTags openAi p sent = (Inr p', sent') \<longrightarrow>
      (\<exists>r. finalFunctionCallResult openAi ''tagTool'' (zodFunction tagTool tagToolParamsSchema)
              (convertPresentationToPrompt p False None) sent = (Inr (Some r), sent')
            \<and> p' = p\<lparr>tags := Some r\<rparr>))
   \<and> (generateTweets openAi p d sent = (Inr p', sent') \<longrightarrow>
      (\<exists>r. finalFunctionCallResult openAi ''tweetTool'' (zodFunction tweetTool tweetToolParamsSchema)
              (convertPresentationToPrompt p True (Some d)) sent = (Inr (Some r), sent')
            \<and> p' = p\<lparr>tweet := Some r\<rparr>))
   \<and> (addLinkToTweets p l = Inr p' \<longrightarrow>
      (\<exists>ts. tweet p = Some ts \<and>
            p' = p\<lparr>tweet := Some (map (\<lambda>t. trimEnd (t @ '' '' @ (case l of None \<Rightarrow> [] | Some u \<Rightarrow> u))) ts)\<rparr>))
   \<and> (meetingWithTags openAi m sent = (Inr m', sent') \<longrightarrow>
      (\<exists>ps. m' = m\<lparr>presentations := ps\<rparr> \<and>
            list_all2 (\<lambda>q q'. \<exists>r. q' = q\<lparr>tags := Some r\<rparr>) (presentations m) ps))
   \<and> (meetingWithTweets openAi m sent = (Inr m', sent') \<longrightarrow>
      (\<exists>ps. m' = m\<lparr>presentations := ps\<rparr> \<and>
            list_all2 (\<lambda>q q'. \<exists>r. q' = q\<lparr>tweet := Some r\<rparr>) (presentations m) ps))
   \<and> (meetingWithYouTubeTitles openAi m sent = (Inr mt, sent') \<longrightarrow>
      (\<exists>ts. youTubeTitles openAi m sent = (Inr ts, sent') \<and>
            mt = Meeting.extend m (MeetingWithYouTubeTitles.fields ts) \<and>
            youTubeTitle mt = ts \<and> Meeting.truncate mt = m))
   \<and> (meetingWithImages openAi mt sent = (Inr mt', sent') \<longrightarrow>
      (\<exists>ideas s images.
            designIdeas openAi mt sent = (Inr ideas, s) \<and>
            generateImage openAi ideas (getFileNamePrefix (meetingDate mt) (meetingType mt)) s
              = (Inr images, sent') \<and>
            mt' = mt\<lparr>image := Some images\<rparr>))"
proof (intro conjI impI)
  assume "generateTags openAi p sent = (Inr p', sent')"
  then show "\<exists>r. finalFunctionCallResult openAi ''tagTool'' (zodFunction tagTool tagToolParamsSchema)
              (convertPresentationToPrompt p False None) sent = (Inr (Some r), sent')
            \<and> p' = p\<lparr>tags := Some r\<rparr>" by (rule generateTags_Inr)
next
  assume "generateTweets openAi p d sent = (Inr p', sent')"
  then show "\<exists>r. finalFunctionCallResult openAi ''tweetTool'' (zodFunction tweetTool tweetToolParamsSchema)
              (convertPresentationToPrompt p True (Some d)) sent = (Inr (Some r), sent')
            \<and> p' = p\<lparr>tweet := Some r\<rparr>" by (rule generateTweets_Inr)
next
  assume "addLinkToTweets p l = Inr p'"
  then show "\<exists>ts. tweet p = Some ts \<and>
            p' = p\<lparr>tweet := Some (map (\<lambda>t. trimEnd (t @ '' '' @ (case l of None \<Rightarrow> [] | Some u \<Rightarrow> u))) ts)\<rparr>"
    by (rule addLinkToTweets_Inr)
next
  assume a: "meetingWithTags openAi m sent = (Inr m', sent')"
  then obtain ps where
    ps: "Promise_all (map (generateTags openAi) (presentations m)) sent = (Inr ps, sent')" and
    m': "m' = m\<lparr>presentations := ps\<rparr>"
    by (auto simp: meetingWithTags_def await_Inr_iff resolve_iff)
  have "list_all2 (\<lambda>q q'. \<exists>r. q' = q\<lparr>tags := Some r\<rparr>) (presentations m) ps"
    by (rule Promise_all_Inr [OF _ ps]) (blast dest: generateTags_Inr)
  with m' show "\<exists>ps. m' = m\<lparr>presentations := ps\<rparr> \<and>
            list_all2 (\<lambda>q q'. \<exists>r. q' = q\<lparr>tags := Some r\<rparr>) (presentations m) ps"
    by blast
next
  assume a: "meetingWithTweets openAi m sent = (Inr m', sent')"
  let ?f = "\<lambda>presentation.
              await (generateTweets openAi presentation (meetingDate m))
                (\<lambda>presentationWithGeneratedTweets sent.
                   (addLinkToTweets presentationWithGeneratedTweets (meetupUrl m), sent))"
  from a obtain ps where
    ps: "Promise_all (map ?f (presentations m)) sent = (Inr ps, sent')" and
    m': "m' = m\<lparr>presentations := ps\<rparr>"
    by (auto simp: meetingWithTweets_def await_Inr_iff resolve_iff)
  have f: "\<exists>r. q' = q\<lparr>tweet := Some r\<rparr>" if "?f q s = (Inr q', s')" for q q' s s'
  proof -
    from that obtain q1 s1 where
      g: "generateTweets openAi q (meetingDate m) s = (Inr q1, s1)" and
      l: "addLinkToTweets q1 (meetupUrl m) = Inr q'"
      by (auto simp: await_Inr_iff)
    from generateTweets_Inr [OF g] obtain r1 where "q1 = q\<lparr>tweet := Some r1\<rparr>" by blast
    moreover from addLinkToTweets_Inr [OF l] obtain r2 where "q' = q1\<lparr>tweet := Some r2\<rparr>"
      by blast
    ultimately have "q' = q\<lparr>tweet := Some r2\<rparr>" by simp
    then show ?thesis by blast
  qed
  have "list_all2 (\<lambda>q q'. \<exists>r. q' = q\<lparr>tweet := Some r\<rparr>) (presentations m) ps"
    by (rule Promise_all_Inr [of ?f, OF _ ps]) (rule f)
  with m' show "\<exists>ps. m' = m\<lparr>presentations := ps\<rparr> \<and>
            list_all2 (\<lambda>q q'. \<exists>r. q' = q\<lparr>tweet := Some r\<rparr>) (presentations m) ps"
    by blast
next
  assume "meetingWithYouTubeTitles openAi m sent = (Inr mt, sent')"
  then show "\<exists>ts. youTubeTitles openAi m sent = (Inr ts, sent') \<and>
            mt = Meeting.extend m (MeetingWithYouTubeTitles.fields ts) \<and>
            youTubeTitle mt = ts \<and> Meeting.truncate mt = m"
    by (auto simp: meetingWithYouTubeTitles_def await_Inr_iff resolve_iff Meeting.defs
          MeetingWithYouTubeTitles.defs)
next
  assume "meetingWithImages openAi mt sent = (Inr mt', sent')"
  then show "\<exists>ideas s images.
            designIdeas openAi mt sent = (Inr ideas, s) \<and>
            generateImage openAi ideas (getFileNamePrefix (meetingDate mt) (meetingType mt)) s
              = (Inr images, sent') \<and>
            mt' = mt\<lparr>image := Some images\<rparr>"
    by (auto simp: meetingWithImages_def await_Inr_iff resolve_iff)
qed

text \<open>
  A presentation that comes with the tag \<open>podman\<close> leaves the tag stage with the
  generated tag instead.
\<close>

theorem generateTags_overwrites_tags:
  "fst (generateTags sample_openAi
     \<lparr>title = ''Base'', presenterNames = [''A B''], abstract = ''On shells.'',
      references = None, tags = Some [''podman''], tweet = None\<rparr> [])
   = Inr \<lparr>title = ''Base'', presenterNames = [''A B''], abstract = ''On shells.'',
      references = None, tags = Some [''linux-containers''], tweet = None\<rparr>"
  by code_simp

text \<open>
  The same for the posts and for the images: the post that the sample presentation comes
  with, and the image that the sample meeting comes with, are replaced.
\<close>

lemma generateTweets_overwrites_tweet:
  "tweet sample_presentation = Some [''An old post'']
   \<and> map_sum id tweet (fst (generateTweets sample_openAi sample_presentation ''2024-03-13'' []))
       = Inr (Some [''Join us!'', ''Containers ahead'', ''See you there ''])"
  by code_simp

lemma meetingWithImages_overwrites_image:
  "image sample_meeting = Some [\<lparr>src = ''./old.png'', alt = ''An old image''\<rparr>]
   \<and> map_sum id image
       (fst (meetingWithImages sample_openAi
              (Meeting.extend sample_meeting (MeetingWithYouTubeTitles.fields [])) []))
       = Inr (Some
           [\<lparr>src = ''./2024-03-13_sluug_a-penguin-among-containers.png'', alt = ''A penguin, among containers.''\<rparr>,
            \<lparr>src = ''./2024-03-13_sluug_a-penguin-among-containers.png'', alt = ''A penguin, among containers.''\<rparr>,
            \<lparr>src = ''./2024-03-13_sluug_a-penguin-among-containers.png'', alt = ''A penguin, among containers.''\<rparr>])"
  by code_simp

theorem stages_replace_own_field_witness:
  "(case fst (generateTags sample_openAi sample_presentation []) of
      Inl e \<Rightarrow> False | Inr p' \<Rightarrow> p' = sample_presentation\<lparr>tags := Some [''linux-containers'']\<rparr>)
   \<and> (case fst (generateTweets sample_openAi sample_presentation ''2024-03-13'' []) of
      Inl e \<Rightarrow> False
    | Inr p' \<Rightarrow> p' = sample_presentation\<lparr>tweet := Some [''Join us!'', ''Containers ahead'', ''See you there '']\<rparr>)
   \<and> (case addLinkToTweets sample_presentation (Some ''https://meetup.example/2'') of
      Inl e \<Rightarrow> False
    | Inr p' \<Rightarrow> p' = sample_presentation\<lparr>tweet := Some [''An old post https://meetup.example/2'']\<rparr>)
   \<and> (case fst (meetingWithTags sample_openAi sample_meeting []) of
      Inl e \<Rightarrow> False
    | Inr m' \<Rightarrow> \<exists>ps. m' = sample_meeting\<lparr>presentations := ps\<rparr> \<and>
        list_all2 (\<lambda>q q'. \<exists>r. q' = q\<lparr>tags := Some r\<rparr>) (presentations sample_meeting) ps)
   \<and> (case fst (meetingWithTweets sample_openAi sample_meeting []) of
      Inl e \<Rightarrow> False
    | Inr m' \<Rightarrow> \<exists>ps. m' = sample_meeting\<lparr>presentations := ps\<rparr> \<and>
        list_all2 (\<lambda>q q'. \<exists>r. q' = q\<lparr>tweet := Some r\<rparr>) (presentations sample_meeting) ps)
   \<and> (case fst (meetingWithYouTubeTitles sample_openAi sample_meeting []) of
      Inl e \<Rightarrow> False
    | Inr mt \<Rightarrow> length (youTubeTitle mt) = 9 \<and> Meeting.truncate mt = sample_meeting)
   \<and> (case fst (meetingWithImages sample_openAi
                  (Meeting.extend sample_meeting (MeetingWithYouTubeTitles.fields [])) []) of
      Inl e \<Rightarrow> False
    | Inr mt' \<Rightarrow> \<exists>images. mt' = (Meeting.extend sample_meeting (MeetingWithYouTubeTitles.fields []))
                                 \<lparr>image := Some images\<rparr>)"
proof -
  let ?mt = "Meeting.extend sample_meeting (MeetingWithYouTubeTitles.fields [])"
  note t = stages_replace_own_field
  have "\<not> isl (fst (generateTags sample_openAi sample_presentation []))" by code_simp
  then obtain a1 s1 where e1: "generateTags sample_openAi sample_presentation [] = (Inr a1, s1)"
    by (blast dest: not_isl_fstD)
  have f1: "fst (finalFunctionCallResult sample_openAi ''tagTool'' (zodFunction tagTool tagToolParamsSchema)
              (convertPresentationToPrompt sample_presentation False None) [])
            = Inr (Some [''linux-containers''])" by code_simp
  from e1 t [where openAi = sample_openAi and p = sample_presentation and sent = "[]"
               and p' = a1 and sent' = s1]
  obtain r1 where
    "finalFunctionCallResult sample_openAi ''tagTool'' (zodFunction tagTool tagToolParamsSchema)
        (convertPresentationToPrompt sample_presentation False None) [] = (Inr (Some r1), s1)"
    and "a1 = sample_presentation\<lparr>tags := Some r1\<rparr>" by blast
  with f1 have c1: "a1 = sample_presentation\<lparr>tags := Some [''linux-containers'']\<rparr>" by simp
  have "\<not> isl (fst (generateTweets sample_openAi sample_presentation ''2024-03-13'' []))" by code_simp
  then obtain a2 s2 where e2: "generateTweets sample_openAi sample_presentation ''2024-03-13'' [] = (Inr a2, s2)"
    by (blast dest: not_isl_fstD)
  have f2: "fst (finalFunctionCallResult sample_openAi ''tweetTool'' (zodFunction tweetTool tweetToolParamsSchema)
              (convertPresentationToPrompt sample_presentation True (Some ''2024-03-13'')) [])
            = Inr (Some [''Join us!'', ''Containers ahead'', ''See you there ''])" by code_simp
  from e2 t [where openAi = sample_openAi and p = sample_presentation and sent = "[]"
               and p' = a2 and sent' = s2 and d = "''2024-03-13''"]
  obtain r2 where
    "finalFunctionCallResult sample_openAi ''tweetTool'' (zodFunction tweetTool tweetToolParamsSchema)
        (convertPresentationToPrompt sample_presentation True (Some ''2024-03-13'')) [] = (Inr (Some r2), s2)"
    and "a2 = sample_presentation\<lparr>tweet := Some r2\<rparr>" by blast
  with f2 have c2: "a2 = sample_presentation\<lparr>tweet := Some [''Join us!'', ''Containers ahead'', ''See you there '']\<rparr>"
    by simp
  have "\<not> isl (addLinkToTweets sample_presentation (Some ''https://meetup.example/2''))" by code_simp
  then obtain a3 where e3: "addLinkToTweets sample_presentation (Some ''https://meetup.example/2'') = Inr a3"
    by (blast dest: not_islD)
  have f3: "tweet sample_presentation = Some [''An old post'']" by (simp add: sample_presentation_def)
  have g3: "trimEnd ''An old post https://meetup.example/2'' = ''An old post https://meetup.example/2''"
    by code_simp
  from e3 t [where p = sample_presentation and l = "Some ''https://meetup.example/2''" and p' = a3]
  have "\<exists>ts. tweet sample_presentation = Some ts \<and>
          a3 = sample_presentation\<lparr>tweet := Some (map (\<lambda>t. trimEnd (t @ '' '' @
                 (case Some ''https://meetup.example/2'' of None \<Rightarrow> [] | Some u \<Rightarrow> u))) ts)\<rparr>"
    by blast
  then obtain ts where "tweet sample_presentation = Some ts"
    and "a3 = sample_presentation\<lparr>tweet := Some (map (\<lambda>t. trimEnd (t @ '' '' @ ''https://meetup.example/2'')) ts)\<rparr>"
    by auto
  with f3 g3 have c3: "a3 = sample_presentation\<lparr>tweet := Some [''An old post https://meetup.example/2'']\<rparr>"
    by simp
  have "\<not> isl (fst (meetingWithTags sample_openAi sample_meeting []))" by code_simp
  then obtain a4 s4 where e4: "meetingWithTags sample_openAi sample_meeting [] = (Inr a4, s4)"
    by (blast dest: not_isl_fstD)
  from e4 t [where openAi = sample_openAi and m = sample_meeting and sent = "[]" and m' = a4 and sent' = s4]
  have c4: "\<exists>ps. a4 = sample_meeting\<lparr>presentations := ps\<rparr> \<and>
        list_all2 (\<lambda>q q'. \<exists>r. q' = q\<lparr>tags := Some r\<rparr>) (presentations sample_meeting) ps"
    by blast
  have "\<not> isl (fst (meetingWithTweets sample_openAi sample_meeting []))" by code_simp
  then obtain a5 s5 where e5: "meetingWithTweets sample_openAi sample_meeting [] = (Inr a5, s5)"
    by (blast dest: not_isl_fstD)
  from e5 t [where openAi = sample_openAi and m = sample_meeting and sent = "[]" and m' = a5 and sent' = s5]
  have c5: "\<exists>ps. a5 = sample_meeting\<lparr>presentations := ps\<rparr> \<and>
        list_all2 (\<lambda>q q'. \<exists>r. q' = q\<lparr>tweet := Some r\<rparr>) (presentations sample_meeting) ps"
    by blast
  have "\<not> isl (fst (meetingWithYouTubeTitles sample_openAi sample_meeting []))" by code_simp
  then obtain a6 s6 where e6: "meetingWithYouTubeTitles sample_openAi sample_meeting [] = (Inr a6, s6)"
    by (blast dest: not_isl_fstD)
  have f6: "map_sum id length (fst (youTubeTitles sample_openAi sample_meeting [])) = Inr 9"
    by code_simp
  from e6 t [where openAi = sample_openAi and m = sample_meeting and sent = "[]" and mt = a6 and sent' = s6]
  obtain ts6 where "youTubeTitles sample_openAi sample_meeting [] = (Inr ts6, s6)"
    and "youTubeTitle a6 = ts6" and t6: "Meeting.truncate a6 = sample_meeting" by blast
  with f6 have c6: "length (youTubeTitle a6) = 9 \<and> Meeting.truncate a6 = sample_meeting" by simp
  have "\<not> isl (fst (meetingWithImages sample_openAi ?mt []))" by code_simp
  then obtain a7 s7 where e7: "meetingWithImages sample_openAi ?mt [] = (Inr a7, s7)"
    by (blast dest: not_isl_fstD)
  from e7 t [where openAi = sample_openAi and mt = ?mt and sent = "[]" and mt' = a7 and sent' = s7]
  have c7: "\<exists>images. a7 = ?mt\<lparr>image := Some images\<rparr>" by blast
  show ?thesis
    unfolding e1 e2 e3 e4 e5 e6 e7 fst_conv sum.case
    using c1 c2 c3 c4 c5 c6 c7 by blast
qed

subsection \<open>Answers that fail the schema\<close>

lemma finalFunctionCallResult_asks_again:
  assumes "\<forall>i<j. \<exists>a. runTools openAi (length sent + i) name text = Inr (Some a) \<and> isl (tool a)"
      and "runTools openAi (length sent + j) name text = Inr (Some a')"
      and "tool a' = Inr res"
      and "j < DEFAULT_MAX_CHAT_COMPLETIONS"
  shows "finalFunctionCallResult openAi name tool text sent
           = (Inr (Some res), sent @ replicate (Suc j) (RunTools name text))"
  unfolding finalFunctionCallResult_def using assms by (rule runTools_loop_asks_again)

text \<open>
  With a first answer of two posts and a second answer of three, the run of the sample
  input is not aborted: the second request of the run is the one for the posts, it is
  answered with two posts, which the tool rejects, and the run ends with the record for
  the output, holding the three posts of the next answer. Even when no answer for the
  posts or for the titles ever has three entries, the run ends with a record for the
  output.
\<close>

theorem rejected_answer_does_not_abort:
  "(case snd (main sample_openAi_retry sample_input (Some ''sk-test'') []) ! 1 of
      RunTools name text \<Rightarrow>
        name = ''tweetTool'' \<and>
        runTools sample_openAi_retry 1 name text
          = Inr (Some (JObj [(''tweets'', JArr [JStr ''Join us!'', JStr ''Containers ahead''])]))
    | Create text \<Rightarrow> False
    | Generate prompt \<Rightarrow> False)
   \<and> isl (zodFunction tweetTool tweetToolParamsSchema
            (JObj [(''tweets'', JArr [JStr ''Join us!'', JStr ''Containers ahead''])]))
   \<and> map_sum id (\<lambda>m. map tweet (presentations m))
        (fst (main sample_openAi_retry sample_input (Some ''sk-test'') []))
       = Inr [Some [''Join us! https://meetup.example/1'',
                    ''Containers ahead https://meetup.example/1'',
                    ''See you there  https://meetup.example/1'']]
   \<and> \<not> isl (fst (main sample_openAi_short sample_input (Some ''sk-test'') []))"
  by code_simp

text \<open>
  C8 (as amended). Arguments of a tool call that violate the schema of the stage are
  rejected by the validation of the stage: the tool's \<open>parse\<close> fails exactly when the
  schema does, so for two posts where three are required, for more than three tags, for
  other than three titles. The run is not aborted on that: the request is put to the
  model again, and when, after \<open>j\<close> rejected answers, an answer within the 10 requests
  of the call passes the validation, the call returns what the tool made of that
  answer, after \<open>j + 1\<close> requests, and the stage continues with it.
\<close>

theorem rejected_answer_is_asked_again:
  "(isl (zodFunction fn schema a) \<longleftrightarrow> isl (parse schema a))
   \<and> (isl (zodFunction tweetTool tweetToolParamsSchema (JObj [(''tweets'', JArr (map JStr ws))]))
        \<longleftrightarrow> length ws \<noteq> 3)
   \<and> (isl (zodFunction tagTool tagToolParamsSchema (JObj [(''tags'', JArr (map JStr ws))]))
        \<longleftrightarrow> 3 < length ws)
   \<and> (isl (zodFunction youTubeTitleTool youtubeTitleToolParamsSchema (JObj [(''titles'', JArr (map JStr ws))]))
        \<longleftrightarrow> length ws \<noteq> 3)
   \<and> ((\<forall>i<j. \<exists>a. runTools openAi (length sent + i) name prompt = Inr (Some a) \<and> isl (tool a))
        \<and> runTools openAi (length sent + j) name prompt = Inr (Some a')
        \<and> tool a' = Inr res \<and> j < DEFAULT_MAX_CHAT_COMPLETIONS
      \<longrightarrow> finalFunctionCallResult openAi name tool prompt sent
            = (Inr (Some res), sent @ replicate (Suc j) (RunTools name prompt)))
   \<and> ((\<forall>i<j. \<exists>a. runTools openAi (length sent + i) ''tagTool''
                     (convertPresentationToPrompt p False None) = Inr (Some a)
                   \<and> isl (zodFunction tagTool tagToolParamsSchema a))
        \<and> runTools openAi (length sent + j) ''tagTool''
             (convertPresentationToPrompt p False None) = Inr (Some a')
        \<and> zodFunction tagTool tagToolParamsSchema a' = Inr res \<and> j < DEFAULT_MAX_CHAT_COMPLETIONS
      \<longrightarrow> generateTags openAi p sent
            = (Inr (p\<lparr>tags := Some res\<rparr>),
               sent @ replicate (Suc j) (RunTools ''tagTool'' (convertPresentationToPrompt p False None))))
   \<and> ((\<forall>i<j. \<exists>a. runTools openAi (length sent + i) ''tweetTool''
                     (convertPresentationToPrompt p True (Some d)) = Inr (Some a)
                   \<and> isl (zodFunction tweetTool tweetToolParamsSchema a))
        \<and> runTools openAi (length sent + j) ''tweetTool''
             (convertPresentationToPrompt p True (Some d)) = Inr (Some a')
        \<and> zodFunction tweetTool tweetToolParamsSchema a' = Inr res \<and> j < DEFAULT_MAX_CHAT_COMPLETIONS
      \<longrightarrow> generateTweets openAi p d sent
            = (Inr (p\<lparr>tweet := Some res\<rparr>),
               sent @ replicate (Suc j) (RunTools ''tweetTool'' (convertPresentationToPrompt p True (Some d)))))
   \<and> ((\<forall>i<j. \<exists>a. runTools openAi (length sent + i) ''youTubeTitleTool'' prompt = Inr (Some a)
                   \<and> isl (zodFunction youTubeTitleTool youtubeTitleToolParamsSchema a))
        \<and> runTools openAi (length sent + j) ''youTubeTitleTool'' prompt = Inr (Some a')
        \<and> zodFunction youTubeTitleTool youtubeTitleToolParamsSchema a' = Inr res
        \<and> j < DEFAULT_MAX_CHAT_COMPLETIONS
      \<longrightarrow> generateYouTubeTitleFromPrompt openAi prompt d kind sent
            = (Inr (suffixTitleWithMeetingDateAndType res d kind),
               sent @ replicate (Suc j) (RunTools ''youTubeTitleTool'' prompt)))"
proof (intro conjI impI; (elim conjE)?)
  show "isl (zodFunction fn schema a) \<longleftrightarrow> isl (parse schema a)"
    by (simp add: zodFunction_def parse_def split: sum.splits)
  show "isl (zodFunction tweetTool tweetToolParamsSchema (JObj [(''tweets'', JArr (map JStr ws))]))
        \<longleftrightarrow> length ws \<noteq> 3"
    by (rule zodFunction_tweetTool_rejects)
  show "isl (zodFunction tagTool tagToolParamsSchema (JObj [(''tags'', JArr (map JStr ws))]))
        \<longleftrightarrow> 3 < length ws"
    by (rule zodFunction_tagTool_rejects)
  show "isl (zodFunction youTubeTitleTool youtubeTitleToolParamsSchema (JObj [(''titles'', JArr (map JStr ws))]))
        \<longleftrightarrow> length ws \<noteq> 3"
    by (rule zodFunction_youTubeTitleTool_rejects)
next
  assume "\<forall>i<j. \<exists>a. runTools openAi (length sent + i) name prompt = Inr (Some a) \<and> isl (tool a)"
    "runTools openAi (length sent + j) name prompt = Inr (Some a')"
    "tool a' = Inr res" "j < DEFAULT_MAX_CHAT_COMPLETIONS"
  then show "finalFunctionCallResult openAi name tool prompt sent
            = (Inr (Some res), sent @ replicate (Suc j) (RunTools name prompt))"
    by (rule finalFunctionCallResult_asks_again)
next
  assume "\<forall>i<j. \<exists>a. runTools openAi (length sent + i) ''tagTool''
                     (convertPresentationToPrompt p False None) = Inr (Some a)
                   \<and> isl (zodFunction tagTool tagToolParamsSchema a)"
    "runTools openAi (length sent + j) ''tagTool''
             (convertPresentationToPrompt p False None) = Inr (Some a')"
    "zodFunction tagTool tagToolParamsSchema a' = Inr res" "j < DEFAULT_MAX_CHAT_COMPLETIONS"
  then have "finalFunctionCallResult openAi ''tagTool'' (zodFunction tagTool tagToolParamsSchema)
               (convertPresentationToPrompt p False None) sent
            = (Inr (Some res), sent @ replicate (Suc j)
                 (RunTools ''tagTool'' (convertPresentationToPrompt p False None)))"
    by (rule finalFunctionCallResult_asks_again)
  then show "generateTags openAi p sent
            = (Inr (p\<lparr>tags := Some res\<rparr>),
               sent @ replicate (Suc j) (RunTools ''tagTool'' (convertPresentationToPrompt p False None)))"
    by (simp add: generateTags_def await_def resolve_def)
next
  assume "\<forall>i<j. \<exists>a. runTools openAi (length sent + i) ''tweetTool''
                     (convertPresentationToPrompt p True (Some d)) = Inr (Some a)
                   \<and> isl (zodFunction tweetTool tweetToolParamsSchema a)"
    "runTools openAi (length sent + j) ''tweetTool''
             (convertPresentationToPrompt p True (Some d)) = Inr (Some a')"
    "zodFunction tweetTool tweetToolParamsSchema a' = Inr res" "j < DEFAULT_MAX_CHAT_COMPLETIONS"
  then have "finalFunctionCallResult openAi ''tweetTool'' (zodFunction tweetTool tweetToolParamsSchema)
               (convertPresentationToPrompt p True (Some d)) sent
            = (Inr (Some res), sent @ replicate (Suc j)
                 (RunTools ''tweetTool'' (convertPresentationToPrompt p True (Some d))))"
    by (rule finalFunctionCallResult_asks_again)
  then show "generateTweets openAi p d sent
            = (Inr (p\<lparr>tweet := Some res\<rparr>),
               sent @ replicate (Suc j) (RunTools ''tweetTool'' (convertPresentationToPrompt p True (Some d))))"
    by (simp add: generateTweets_def await_def resolve_def)
next
  assume "\<forall>i<j. \<exists>a. runTools openAi (length sent + i) ''youTubeTitleTool'' prompt = Inr (Some a)
                   \<and> isl (zodFunction youTubeTitleTool youtubeTitleToolParamsSchema a)"
    "runTools openAi (length sent + j) ''youTubeTitleTool'' prompt = Inr (Some a')"
    "zodFunction youTubeTitleTool youtubeTitleToolParamsSchema a' = Inr res"
    "j < DEFAULT_MAX_CHAT_COMPLETIONS"
  then have "finalFunctionCallResult openAi ''youTubeTitleTool''
               (zodFunction youTubeTitleTool youtubeTitleToolParamsSchema) prompt sent
            = (Inr (Some res), sent @ replicate (Suc j) (RunTools ''youTubeTitleTool'' prompt))"
    by (rule finalFunctionCallResult_asks_again)
  then show "generateYouTubeTitleFromPrompt openAi prompt d kind sent
            = (Inr (suffixTitleWithMeetingDateAndType res d kind),
               sent @ replicate (Suc j) (RunTools ''youTubeTitleTool'' prompt))"
    by (simp add: generateYouTubeTitleFromPrompt_def await_def resolve_def)
qed

theorem rejected_answer_is_asked_again_witness:
  "isl (zodFunction tweetTool tweetToolParamsSchema
          (JObj [(''tweets'', JArr [JStr ''Join us!'', JStr ''Containers ahead''])]))
   \<and> generateTweets sample_openAi_retry sample_presentation ''2024-03-13'' [RunTools ''tagTool'' []]
       = (Inr (sample_presentation\<lparr>tweet := Some [''Join us!'', ''Containers ahead'', ''See you there '']\<rparr>),
          [RunTools ''tagTool'' [],
           RunTools ''tweetTool'' (convertPresentationToPrompt sample_presentation True (Some ''2024-03-13'')),
           RunTools ''tweetTool'' (convertPresentationToPrompt sample_presentation True (Some ''2024-03-13''))])"
proof -
  let ?text = "convertPresentationToPrompt sample_presentation True (Some ''2024-03-13'')"
  let ?two = "JObj [(''tweets'', JArr [JStr ''Join us!'', JStr ''Containers ahead''])]"
  let ?three = "JObj [(''tweets'', JArr [JStr ''Join us!'', JStr ''Containers ahead'', JStr ''See you there ''])]"
  let ?sent = "[RunTools ''tagTool'' []]"
  note t = rejected_answer_is_asked_again
    [where openAi = sample_openAi_retry and sent = ?sent and j = 1 and p = sample_presentation
       and d = "''2024-03-13''" and a' = ?three and ws = "[''Join us!'', ''Containers ahead'']"
       and res = "[''Join us!'', ''Containers ahead'', ''See you there '']"
       and fn = tweetTool and schema = tweetToolParamsSchema and a = ?two
       and name = "''tweetTool''" and tool = "zodFunction tweetTool tweetToolParamsSchema"
       and prompt = ?text and kind = SLUUG]
  from t have "isl (zodFunction tweetTool tweetToolParamsSchema
                  (JObj [(''tweets'', JArr (map JStr [''Join us!'', ''Containers ahead'']))]))
                \<longleftrightarrow> length [''Join us!'', ''Containers ahead''] \<noteq> 3"
    by blast
  then have r: "isl (zodFunction tweetTool tweetToolParamsSchema ?two)"
    by simp
  have e1: "runTools sample_openAi_retry 1 ''tweetTool'' ?text = Inr (Some ?two)"
    by (simp add: sample_openAi_retry_def)
  have e3: "zodFunction tweetTool tweetToolParamsSchema ?three
             = Inr [''Join us!'', ''Containers ahead'', ''See you there '']"
    by code_simp
  have h: "\<forall>i<1. \<exists>a. runTools sample_openAi_retry (length ?sent + i) ''tweetTool'' ?text = Inr (Some a)
                    \<and> isl (zodFunction tweetTool tweetToolParamsSchema a)"
    using e1 r by simp
  have n2: "runTools sample_openAi_retry (length ?sent + 1) ''tweetTool'' ?text = Inr (Some ?three)"
    by (simp add: sample_openAi_retry_def sample_openAi_def)
  have b: "1 < DEFAULT_MAX_CHAT_COMPLETIONS" by (simp add: DEFAULT_MAX_CHAT_COMPLETIONS_def)
  from t have "(\<forall>i<1. \<exists>a. runTools sample_openAi_retry (length ?sent + i) ''tweetTool'' ?text = Inr (Some a)
                    \<and> isl (zodFunction tweetTool tweetToolParamsSchema a))
        \<and> runTools sample_openAi_retry (length ?sent + 1) ''tweetTool'' ?text = Inr (Some ?three)
        \<and> zodFunction tweetTool tweetToolParamsSchema ?three
             = Inr [''Join us!'', ''Containers ahead'', ''See you there '']
        \<and> 1 < DEFAULT_MAX_CHAT_COMPLETIONS
      \<longrightarrow> generateTweets sample_openAi_retry sample_presentation ''2024-03-13'' ?sent
       = (Inr (sample_presentation\<lparr>tweet := Some [''Join us!'', ''Containers ahead'', ''See you there '']\<rparr>),
          ?sent @ replicate (Suc 1) (RunTools ''tweetTool'' ?text))"
    by blast
  with h n2 e3 b
  have "generateTweets sample_openAi_retry sample_presentation ''2024-03-13'' ?sent
       = (Inr (sample_presentation\<lparr>tweet := Some [''Join us!'', ''Containers ahead'', ''See you there '']\<rparr>),
          ?sent @ replicate (Suc 1) (RunTools ''tweetTool'' ?text))"
    by blast
  with r show ?thesis by (simp add: numeral_2_eq_2)
qed

end
